theory Spec2Isabelle
  imports Main "HOL-Library.AList"
begin

section \<open>JavaScript values and objects\<close>

text \<open>
  The storage layer and the route handlers are written against untyped values
  (\<^verbatim>\<open>id: any\<close>, \<^verbatim>\<open>req.body\<close>, object spreads), so the embedding keeps a small
  universe of JavaScript values. Numbers are the integers and \<open>NaN\<close>: the only numbers
  this program computes are counters and results of \<^verbatim>\<open>parseInt\<close>. An integer is kept
  exactly; JavaScript rounds integers beyond \<open>2^53\<close> to the nearest double and prints
  those from \<open>10^21\<close> on in exponent form, which no counter-issued key reaches.
  \<open>JObject r s\<close> is any object value (a \<^verbatim>\<open>Date\<close>, an array, a document id) with
  reference \<open>r\<close> that \<^verbatim>\<open>String()\<close> renders as \<open>s\<close>.
\<close>

datatype jsval =
    JUndefined
  | JNull
  | JBool bool
  | JNaN
  | JNum int
  | JStr string
  | JObject nat string

datatype jstype = TUndefined | TObject | TBoolean | TNumber | TString

fun typeof :: "jsval \<Rightarrow> jstype" where
  "typeof JUndefined = TUndefined"
| "typeof JNull = TObject"
| "typeof (JBool b) = TBoolean"
| "typeof JNaN = TNumber"
| "typeof (JNum n) = TNumber"
| "typeof (JStr s) = TString"
| "typeof (JObject r s) = TObject"

text \<open>Truthiness, as \<^verbatim>\<open>if (v)\<close>, \<^verbatim>\<open>!v\<close> and \<^verbatim>\<open>a || b\<close> read it.\<close>

fun truthy :: "jsval \<Rightarrow> bool" where
  "truthy JUndefined = False"
| "truthy JNull = False"
| "truthy (JBool b) = b"
| "truthy JNaN = False"
| "truthy (JNum n) = (n \<noteq> 0)"
| "truthy (JStr s) = (s \<noteq> [])"
| "truthy (JObject r s) = True"

definition js_or :: "jsval \<Rightarrow> jsval \<Rightarrow> jsval" where
  "js_or a b = (if truthy a then a else b)"

text \<open>Strict equality \<^verbatim>\<open>===\<close>: \<open>NaN\<close> equals nothing, objects are compared by reference.\<close>

fun strict_eq :: "jsval \<Rightarrow> jsval \<Rightarrow> bool" where
  "strict_eq JNaN b = False"
| "strict_eq (JObject r s) (JObject r' s') = (r = r')"
| "strict_eq a b = (a = b)"

text \<open>\<^verbatim>\<open>isNaN\<close> is applied in this program to results of \<^verbatim>\<open>parseInt\<close> only, which are numbers.\<close>

definition isNaN :: "jsval \<Rightarrow> bool" where
  "isNaN v = (v = JNaN)"

subsection \<open>Decimal rendering and \<^verbatim>\<open>String()\<close>\<close>

fun digits10 :: "nat \<Rightarrow> string" where
  "digits10 n =
     (if n < 10 then [char_of (48 + n)]
      else digits10 (n div 10) @ [char_of (48 + n mod 10)])"

declare digits10.simps [simp del]

definition string_of_int :: "int \<Rightarrow> string" where
  "string_of_int i = (if i < 0 then CHR ''-'' # digits10 (nat (- i)) else digits10 (nat i))"

fun to_string :: "jsval \<Rightarrow> string" where
  "to_string JUndefined = ''undefined''"
| "to_string JNull = ''null''"
| "to_string (JBool b) = (if b then ''true'' else ''false'')"
| "to_string JNaN = ''NaN''"
| "to_string (JNum n) = string_of_int n"
| "to_string (JStr s) = s"
| "to_string (JObject r s) = s"

subsection \<open>\<^verbatim>\<open>parseInt\<close> with no radix argument\<close>

text \<open>
  ECMAScript \<^verbatim>\<open>parseInt(string)\<close>: convert the argument to a string, skip leading white
  space, read an optional sign, switch to radix 16 after a \<^verbatim>\<open>0x\<close> or \<^verbatim>\<open>0X\<close> prefix, take the
  longest prefix of digits of the radix and ignore whatever follows; the result is \<open>NaN\<close>
  when that prefix is empty. A string is the list of its code units, here those below 256;
  white space is the part of the standard's set in that range: TAB, LF, VT, FF, CR, space
  and the no-break space U+00A0.
\<close>

definition is_ws :: "char \<Rightarrow> bool" where
  "is_ws c = ((of_char c :: nat) \<in> {9, 10, 11, 12, 13, 32, 160})"

definition digit_value :: "char \<Rightarrow> nat option" where
  "digit_value c =
     (let n = (of_char c :: nat) in
      if 48 \<le> n \<and> n \<le> 57 then Some (n - 48)
      else if 97 \<le> n \<and> n \<le> 122 then Some (n - 87)
      else if 65 \<le> n \<and> n \<le> 90 then Some (n - 55)
      else None)"

definition radix_digit :: "nat \<Rightarrow> char \<Rightarrow> bool" where
  "radix_digit R c = (case digit_value c of Some v \<Rightarrow> v < R | None \<Rightarrow> False)"

definition radix_value :: "nat \<Rightarrow> string \<Rightarrow> nat" where
  "radix_value R Z =
     foldl (\<lambda>a c. case digit_value c of Some v \<Rightarrow> a * R + v | None \<Rightarrow> a) 0 Z"

definition parseInt_string :: "string \<Rightarrow> jsval" where
  "parseInt_string input =
     (let S = dropWhile is_ws input;
          sign = (if take 1 S = ''-'' then - 1 else 1 :: int);
          S1 = (if take 1 S = ''+'' \<or> take 1 S = ''-'' then drop 1 S else S);
          hex = (take 2 S1 = ''0x'' \<or> take 2 S1 = ''0X'');
          R = (if hex then 16 else 10);
          S2 = (if hex then drop 2 S1 else S1);
          Z = takeWhile (radix_digit R) S2
      in if Z = [] then JNaN else JNum (sign * int (radix_value R Z)))"

definition parseInt :: "jsval \<Rightarrow> jsval" where
  "parseInt v = parseInt_string (to_string v)"

text \<open>The test \<^verbatim>\<open>/^[0-9a-fA-F]{24}$/\<close> the routes use to recognise a document id.\<close>

definition is_hex :: "char \<Rightarrow> bool" where
  "is_hex c = (c \<in> set ''0123456789abcdefABCDEF'')"

definition is_objectid :: "string \<Rightarrow> bool" where
  "is_objectid s = (length s = 24 \<and> list_all is_hex s)"

subsection \<open>Objects\<close>

text \<open>
  A plain object is the list of its own properties in insertion order. Reading a missing
  property gives \<open>undefined\<close>; a spread or a literal \<^verbatim>\<open>{...base, k: v, ...}\<close> writes the
  properties from left to right, each one overwriting in place or appended;
  \<^verbatim>\<open>const {k, ...rest} = o\<close> leaves in \<open>rest\<close> every property but \<open>k\<close>.
\<close>

type_synonym obj = "(string \<times> jsval) list"

definition get_prop :: "obj \<Rightarrow> string \<Rightarrow> jsval" where
  "get_prop ob k = (case map_of ob k of None \<Rightarrow> JUndefined | Some v \<Rightarrow> v)"

definition spread :: "obj \<Rightarrow> obj \<Rightarrow> obj" where
  "spread base props = fold (\<lambda>(k, v). AList.update k v) props base"

definition omit :: "string \<Rightarrow> obj \<Rightarrow> obj" where
  "omit k ob = AList.delete k ob"

section \<open>The in-memory store \<^verbatim>\<open>MemStorage\<close>\<close>

text \<open>
  Each \<^verbatim>\<open>Map<number, T>\<close> is the list of its entries in insertion order, keyed by the
  integers the counters issue. \<^verbatim>\<open>Map.get\<close> and \<^verbatim>\<open>Map.delete\<close> with a key that is not
  an integer (\<open>NaN\<close>, a string, \<open>undefined\<close>) find nothing. \<^verbatim>\<open>Map.set\<close> overwrites in
  place or appends; the methods reach it with a counter value or with a key that a
  preceding \<^verbatim>\<open>get\<close> has found, so it is never called with another kind of key.
\<close>

type_synonym table = "(int \<times> obj) list"

record mem_storage =
  users :: table
  services :: table
  jobs :: table
  applications :: table
  orders :: table
  reviews :: table
  currentUserId :: int
  currentServiceId :: int
  currentJobId :: int
  currentApplicationId :: int
  currentOrderId :: int
  currentReviewId :: int

definition new_MemStorage :: mem_storage where
  "new_MemStorage =
     \<lparr>users = [], services = [], jobs = [], applications = [], orders = [], reviews = [],
      currentUserId = 1, currentServiceId = 1, currentJobId = 1,
      currentApplicationId = 1, currentOrderId = 1, currentReviewId = 1\<rparr>"

fun map_get :: "table \<Rightarrow> jsval \<Rightarrow> obj option" where
  "map_get m (JNum k) = map_of m k"
| "map_get m v = None"

fun map_set :: "table \<Rightarrow> jsval \<Rightarrow> obj \<Rightarrow> table" where
  "map_set m (JNum k) v = AList.update k v m"
| "map_set m w v = m"

fun map_delete :: "table \<Rightarrow> jsval \<Rightarrow> table" where
  "map_delete m (JNum k) = AList.delete k m"
| "map_delete m v = m"

definition map_values :: "table \<Rightarrow> obj list" where
  "map_values m = map snd m"

text \<open>
  The id conversions every method starts with. \<open>lookup_id\<close> is the chain of
  \<^verbatim>\<open>getUser\<close>, \<^verbatim>\<open>getService\<close>, \<^verbatim>\<open>getJob\<close> and \<^verbatim>\<open>getApplication\<close>;
  \<open>numeric_id\<close> is the \<^verbatim>\<open>numericId\<close> of the update and delete methods
  (\<open>undefined\<close> when the id is neither a number nor a string that parses);
  \<open>normalize_id\<close> is the conditional expression of the create and filter methods,
  which keeps an id it cannot convert.
\<close>

definition numeric_id :: "jsval \<Rightarrow> jsval" where
  "numeric_id ident =
     (if typeof ident = TNumber then ident
      else if typeof ident = TString \<and> \<not> isNaN (parseInt ident) then parseInt ident
      else JUndefined)"

definition normalize_id :: "jsval \<Rightarrow> jsval" where
  "normalize_id ident =
     (if typeof ident = TNumber then ident
      else if typeof ident = TString \<and> \<not> isNaN (parseInt ident) then parseInt ident
      else ident)"

definition lookup_id :: "table \<Rightarrow> jsval \<Rightarrow> obj option" where
  "lookup_id m ident =
     (if typeof ident = TNumber then map_get m ident
      else if typeof ident = TString \<and> \<not> isNaN (parseInt ident) then map_get m (parseInt ident)
      else None)"

subsection \<open>Users\<close>

definition getUser :: "mem_storage \<Rightarrow> jsval \<Rightarrow> obj option" where
  "getUser s ident = lookup_id (users s) ident"

definition getUserByUsername :: "mem_storage \<Rightarrow> jsval \<Rightarrow> obj option" where
  "getUserByUsername s username =
     find (\<lambda>user. strict_eq (get_prop user ''username'') username) (map_values (users s))"

definition getUserByEmail :: "mem_storage \<Rightarrow> jsval \<Rightarrow> obj option" where
  "getUserByEmail s email =
     find (\<lambda>user. strict_eq (get_prop user ''email'') email) (map_values (users s))"

definition createUser :: "mem_storage \<Rightarrow> jsval \<Rightarrow> obj \<Rightarrow> mem_storage \<times> obj" where
  "createUser s createdAt insertUser =
     (let ident = currentUserId s;
          user = spread insertUser
            [(''id'', JNum ident),
             (''createdAt'', createdAt),
             (''role'', js_or (get_prop insertUser ''role'') (JStr ''freelancer'')),
             (''status'', JStr ''active''),
             (''blockedReason'', JNull),
             (''bio'', js_or (get_prop insertUser ''bio'') JNull),
             (''profilePicture'', js_or (get_prop insertUser ''profilePicture'') JNull)]
      in (s\<lparr>users := AList.update ident user (users s), currentUserId := ident + 1\<rparr>, user))"

definition updateUser :: "mem_storage \<Rightarrow> jsval \<Rightarrow> obj \<Rightarrow> mem_storage \<times> obj option" where
  "updateUser s ident userData =
     (let numericId = numeric_id ident in
      if numericId = JUndefined then (s, None)
      else case map_get (users s) numericId of
             None \<Rightarrow> (s, None)
           | Some existingUser \<Rightarrow>
               (let updatedUser = spread existingUser userData
                in (s\<lparr>users := map_set (users s) numericId updatedUser\<rparr>, Some updatedUser)))"

text \<open>
  \<^verbatim>\<open>deleteUser\<close> removes the user under the numeric key, collects the \<^verbatim>\<open>id\<close> property of
  every service, job and application whose \<^verbatim>\<open>userId\<close> is strictly equal to the key, and
  deletes those ids from the three maps.
\<close>

definition owned_ids :: "table \<Rightarrow> jsval \<Rightarrow> jsval list" where
  "owned_ids m numericId =
     map (\<lambda>r. get_prop r ''id'')
       (filter (\<lambda>r. strict_eq (get_prop r ''userId'') numericId) (map_values m))"

definition deleteUser :: "mem_storage \<Rightarrow> jsval \<Rightarrow> mem_storage" where
  "deleteUser s ident =
     (let numericId = numeric_id ident in
      if numericId = JUndefined then s
      else
        (let userServices = owned_ids (services s) numericId;
             userJobs = owned_ids (jobs s) numericId;
             userApplications = owned_ids (applications s) numericId
         in s\<lparr>users := map_delete (users s) numericId,
               services := foldl map_delete (services s) userServices,
               jobs := foldl map_delete (jobs s) userJobs,
               applications := foldl map_delete (applications s) userApplications\<rparr>))"

datatype user_status = Active | Blocked

fun user_status_name :: "user_status \<Rightarrow> string" where
  "user_status_name Active = ''active''"
| "user_status_name Blocked = ''blocked''"

text \<open>
  \<^verbatim>\<open>updateUserStatus(id, status, blockedReason = null)\<close>: the status has the type
  \<^verbatim>\<open>'active' | 'blocked'\<close>, the reason the type \<^verbatim>\<open>string | null\<close> (\<open>None\<close> is \<open>null\<close>).
\<close>

definition reason_value :: "string option \<Rightarrow> jsval" where
  "reason_value r = (case r of None \<Rightarrow> JNull | Some t \<Rightarrow> JStr t)"

definition updateUserStatus ::
  "mem_storage \<Rightarrow> jsval \<Rightarrow> user_status \<Rightarrow> string option \<Rightarrow> mem_storage \<times> obj option" where
  "updateUserStatus s ident status blockedReason =
     (let numericId = numeric_id ident in
      if numericId = JUndefined then (s, None)
      else case map_get (users s) numericId of
             None \<Rightarrow> (s, None)
           | Some existingUser \<Rightarrow>
               (let updateData0 = [(''status'', JStr (user_status_name status))];
                    updateData =
                      (if status = Blocked \<and> truthy (reason_value blockedReason)
                       then updateData0 @ [(''blockedReason'', reason_value blockedReason)]
                       else if status = Active
                       then updateData0 @ [(''blockedReason'', JNull)]
                       else updateData0);
                    updatedUser = spread existingUser updateData
                in (s\<lparr>users := map_set (users s) numericId updatedUser\<rparr>, Some updatedUser)))"

subsection \<open>Services, jobs and applications\<close>

definition getService :: "mem_storage \<Rightarrow> jsval \<Rightarrow> obj option" where
  "getService s ident = lookup_id (services s) ident"

definition createService :: "mem_storage \<Rightarrow> jsval \<Rightarrow> jsval \<Rightarrow> obj \<Rightarrow> mem_storage \<times> obj" where
  "createService s createdAt userId service =
     (let ident = currentServiceId s;
          numericUserId = normalize_id userId;
          newService = spread service
            [(''id'', JNum ident),
             (''userId'', numericUserId),
             (''createdAt'', createdAt),
             (''status'', js_or (get_prop service ''status'') (JStr ''active'')),
             (''image'', js_or (get_prop service ''image'') JNull),
             (''deliveryTime'', js_or (get_prop service ''deliveryTime'') JNull)]
      in (s\<lparr>services := AList.update ident newService (services s),
             currentServiceId := ident + 1\<rparr>, newService))"

definition updateService :: "mem_storage \<Rightarrow> jsval \<Rightarrow> obj \<Rightarrow> mem_storage \<times> obj option" where
  "updateService s ident serviceData =
     (let numericId = numeric_id ident in
      if numericId = JUndefined then (s, None)
      else case map_get (services s) numericId of
             None \<Rightarrow> (s, None)
           | Some existingService \<Rightarrow>
               (let updatedService = spread existingService serviceData
                in (s\<lparr>services := map_set (services s) numericId updatedService\<rparr>,
                    Some updatedService)))"

definition getJob :: "mem_storage \<Rightarrow> jsval \<Rightarrow> obj option" where
  "getJob s ident = lookup_id (jobs s) ident"

definition createJob :: "mem_storage \<Rightarrow> jsval \<Rightarrow> jsval \<Rightarrow> obj \<Rightarrow> mem_storage \<times> obj" where
  "createJob s createdAt userId job =
     (let ident = currentJobId s;
          numericUserId = normalize_id userId;
          newJob = spread job
            [(''id'', JNum ident),
             (''userId'', numericUserId),
             (''createdAt'', createdAt),
             (''status'', js_or (get_prop job ''status'') (JStr ''open'')),
             (''image'', js_or (get_prop job ''image'') JNull),
             (''location'', js_or (get_prop job ''location'') JNull)]
      in (s\<lparr>jobs := AList.update ident newJob (jobs s), currentJobId := ident + 1\<rparr>, newJob))"

definition getApplication :: "mem_storage \<Rightarrow> jsval \<Rightarrow> obj option" where
  "getApplication s ident = lookup_id (applications s) ident"

definition getUserApplications :: "mem_storage \<Rightarrow> jsval \<Rightarrow> obj list" where
  "getUserApplications s userId =
     (let numericUserId = normalize_id userId
      in filter (\<lambda>application. strict_eq (get_prop application ''userId'') numericUserId)
           (map_values (applications s)))"

definition createApplication ::
  "mem_storage \<Rightarrow> jsval \<Rightarrow> jsval \<Rightarrow> obj \<Rightarrow> mem_storage \<times> obj" where
  "createApplication s createdAt userId application =
     (let ident = currentApplicationId s;
          numericUserId = normalize_id userId;
          newApplication = spread application
            [(''id'', JNum ident),
             (''userId'', numericUserId),
             (''createdAt'', createdAt),
             (''status'', JStr ''pending''),
             (''resumeFile'', js_or (get_prop application ''resumeFile'') JNull)]
      in (s\<lparr>applications := AList.update ident newApplication (applications s),
             currentApplicationId := ident + 1\<rparr>, newApplication))"

datatype application_status = Pending | Approved | Rejected

fun application_status_name :: "application_status \<Rightarrow> string" where
  "application_status_name Pending = ''pending''"
| "application_status_name Approved = ''approved''"
| "application_status_name Rejected = ''rejected''"

definition updateApplicationStatus ::
  "mem_storage \<Rightarrow> jsval \<Rightarrow> application_status \<Rightarrow> mem_storage \<times> obj option" where
  "updateApplicationStatus s ident status =
     (let numericId = numeric_id ident in
      if numericId = JUndefined then (s, None)
      else case map_get (applications s) numericId of
             None \<Rightarrow> (s, None)
           | Some existingApplication \<Rightarrow>
               (let updatedApplication =
                      spread existingApplication
                        [(''status'', JStr (application_status_name status))]
                in (s\<lparr>applications := map_set (applications s) numericId updatedApplication\<rparr>,
                    Some updatedApplication)))"

section \<open>Requests, responses and route guards\<close>

text \<open>
  A thrown error is represented by its \<^verbatim>\<open>message\<close>. A route either sends one response
  (\<^verbatim>\<open>res.status(c).json(b)\<close>, status 200 when \<^verbatim>\<open>res.json(b)\<close> is called alone) or lets an
  error escape its handler. The body is the value handed to \<^verbatim>\<open>res.json\<close>.
\<close>

datatype js_error = Error string

fun message :: "js_error \<Rightarrow> string" where
  "message (Error m) = m"

datatype body = JsonObject obj | JsonNull | JsonUndefined

datatype result = Response nat body | Uncaught js_error

definition json_message :: "nat \<Rightarrow> string \<Rightarrow> result" where
  "json_message code m = Response code (JsonObject [(''message'', JStr m)])"

text \<open>
  What a handler reads from the request: \<^verbatim>\<open>req.isAuthenticated()\<close>, \<^verbatim>\<open>req.user\<close>
  (\<open>None\<close> is \<open>undefined\<close>), \<^verbatim>\<open>req.params.id\<close> and \<^verbatim>\<open>req.body\<close>.
\<close>

record request =
  authenticated :: bool
  user :: "obj option"
  param_id :: string
  req_body :: obj

text \<open>The engine's error for reading a property of an undefined \<^verbatim>\<open>req.user\<close>.\<close>

definition no_user_error :: js_error where
  "no_user_error = Error ''Cannot read properties of undefined''"

text \<open>A middleware either answers (\<open>Some\<close>) or calls \<^verbatim>\<open>next()\<close> (\<open>None\<close>).\<close>

definition isAuthenticated :: "request \<Rightarrow> result option" where
  "isAuthenticated req =
     (if authenticated req then None else Some (json_message 401 ''Unauthorized''))"

definition isAdmin :: "request \<Rightarrow> result option" where
  "isAdmin req =
     (if \<not> authenticated req then Some (json_message 401 ''Unauthorized, please log in'')
      else if (case user req of
                 None \<Rightarrow> False
               | Some u \<Rightarrow> strict_eq (get_prop u ''role'') (JStr ''admin''))
      then None
      else Some (json_message 403 ''Access denied. Admin privileges required.''))"

text \<open>\<^verbatim>\<open>app.METHOD(path, guard, handler)\<close>: the handler runs only when the guard calls next.\<close>

definition guarded ::
  "(request \<Rightarrow> result option) \<Rightarrow> ('s \<Rightarrow> request \<Rightarrow> 's \<times> result) \<Rightarrow> 's \<Rightarrow> request \<Rightarrow> 's \<times> result" where
  "guarded guard handler s req =
     (case guard req of Some r \<Rightarrow> (s, r) | None \<Rightarrow> handler s req)"

text \<open>
  The id conversion at the head of the routes: a string of 24 hexadecimal digits is passed
  on as it is, any other parameter goes through \<^verbatim>\<open>parseInt\<close>.
\<close>

definition route_id :: "string \<Rightarrow> jsval" where
  "route_id p = (if is_objectid p then JStr p else parseInt (JStr p))"

section \<open>Authentication routes\<close>

subsection \<open>The local strategy's verify callback\<close>

text \<open>
  \<^verbatim>\<open>toLowerCase\<close> and \<^verbatim>\<open>trim\<close> on code units below 256: the capitals are A to Z and
  U+00C0 to U+00DE without the multiplication sign U+00D7. \<^verbatim>\<open>bcrypt.compare\<close> belongs to
  a library: it is a parameter that returns a boolean or throws.

  The callback is declared with string arguments, but \<^verbatim>\<open>passport-local\<close> hands it whatever
  truthy values the request body holds. The username must be a string for
  \<^verbatim>\<open>username.toLowerCase()\<close> to run, so \<open>verify\<close> takes a string there; the password is used
  only as an argument of \<^verbatim>\<open>bcrypt.compare\<close> and of \<^verbatim>\<open>===\<close>, so it is any value.
\<close>

definition to_lower_char :: "char \<Rightarrow> char" where
  "to_lower_char c =
     (let n = (of_char c :: nat) in
      if (65 \<le> n \<and> n \<le> 90) \<or> (192 \<le> n \<and> n \<le> 222 \<and> n \<noteq> 215) then char_of (n + 32)
      else c)"

definition toLowerCase :: "string \<Rightarrow> string" where
  "toLowerCase s = map to_lower_char s"

definition trim :: "string \<Rightarrow> string" where
  "trim s = rev (dropWhile is_ws (rev (dropWhile is_ws s)))"

definition startsWith :: "string \<Rightarrow> string \<Rightarrow> bool" where
  "startsWith s p = (take (length p) s = p)"

datatype auth_result = AuthError js_error | AuthFail string | AuthSuccess obj

definition verify ::
  "(jsval \<Rightarrow> string \<Rightarrow> js_error + bool) \<Rightarrow> mem_storage \<Rightarrow> string \<Rightarrow> jsval \<Rightarrow> auth_result" where
  "verify bcrypt_compare s username password =
     (let normalizedUsername = trim (toLowerCase username) in
      case getUserByUsername s (JStr normalizedUsername) of
        None \<Rightarrow> AuthFail ''User not found''
      | Some u \<Rightarrow>
          if \<not> truthy (get_prop u ''password'') then AuthFail ''User has no password''
          else
            (case get_prop u ''password'' of
               JStr stored \<Rightarrow>
                 if startsWith stored ''$2b$'' \<or> startsWith stored ''$2a$''
                 then (case bcrypt_compare password stored of
                         Inl e \<Rightarrow> AuthFail ''Password verification error''
                       | Inr isValidPassword \<Rightarrow>
                           if \<not> isValidPassword then AuthFail ''Invalid password''
                           else AuthSuccess u)
                 else if \<not> strict_eq (JStr stored) password
                      then AuthFail ''Invalid password''
                      else AuthSuccess u
             | other \<Rightarrow>
                 if \<not> strict_eq other password then AuthFail ''Invalid password''
                 else AuthSuccess u))"

text \<open>
  The strategy around the callback, as \<^verbatim>\<open>passport-local\<close> runs it: credentials are read
  from the request body, and a falsy username or password fails with
  \<^verbatim>\<open>"Missing credentials"\<close> before the callback is called. A username that is not a string
  makes \<^verbatim>\<open>username.toLowerCase()\<close> throw inside the callback's \<^verbatim>\<open>try\<close>, which it reports as
  an error; the password is passed on as it is.
\<close>

definition local_strategy ::
  "(jsval \<Rightarrow> string \<Rightarrow> js_error + bool) \<Rightarrow> mem_storage \<Rightarrow> obj \<Rightarrow> auth_result" where
  "local_strategy bcrypt_compare s b =
     (let username = get_prop b ''username''; password = get_prop b ''password'' in
      if \<not> truthy username \<or> \<not> truthy password then AuthFail ''Missing credentials''
      else case username of
             JStr u \<Rightarrow> verify bcrypt_compare s u password
           | other \<Rightarrow> AuthError (Error ''username.toLowerCase is not a function''))"

subsection \<open>\<^verbatim>\<open>POST /api/auth/register\<close>\<close>

text \<open>
  \<^verbatim>\<open>insertUserSchema\<close> is declared in a module outside the sources at hand, so its
  \<^verbatim>\<open>parse\<close> is a parameter: it returns the validated data or throws. \<^verbatim>\<open>bcrypt.hash\<close> is a
  parameter as well, and \<open>login_fails\<close> tells whether \<^verbatim>\<open>req.login\<close> reports an error.
  \<open>now\<close> is the \<^verbatim>\<open>Date\<close> the store stamps the new record with.
\<close>

definition register_handler ::
  "(obj \<Rightarrow> js_error + obj) \<Rightarrow> (jsval \<Rightarrow> js_error + string) \<Rightarrow> bool \<Rightarrow> jsval \<Rightarrow>
   mem_storage \<Rightarrow> request \<Rightarrow> mem_storage \<times> result" where
  "register_handler parse bcrypt_hash login_fails now s req =
     (case parse (req_body req) of
        Inl e \<Rightarrow> (s, json_message 400 (message e))
      | Inr userData \<Rightarrow>
          if \<not> strict_eq (get_prop userData ''password'') (get_prop userData ''confirmPassword'')
          then (s, json_message 400 ''Passwords do not match'')
          else if getUserByUsername s (get_prop userData ''username'') \<noteq> None
          then (s, json_message 400 ''Username already exists'')
          else if getUserByEmail s (get_prop userData ''email'') \<noteq> None
          then (s, json_message 400 ''Email already exists'')
          else
            (case bcrypt_hash (get_prop userData ''password'') of
               Inl e \<Rightarrow> (s, json_message 400 (message e))
             | Inr hashedPassword \<Rightarrow>
                 (let (s', u) = createUser s now
                                  (spread userData [(''password'', JStr hashedPassword)]);
                      safeUser = omit ''password'' u
                  in if login_fails
                     then (s', json_message 500 ''Error logging in after registration'')
                     else (s', Response 201 (JsonObject safeUser)))))"

subsection \<open>\<^verbatim>\<open>POST /api/auth/login\<close> and \<^verbatim>\<open>GET /api/auth/me\<close>\<close>

text \<open>
  \<^verbatim>\<open>loginSchema.parse\<close> is a parameter like the registration schema; \<open>development\<close> is the
  test \<^verbatim>\<open>process.env.NODE_ENV === 'development'\<close>. Users of the in-memory store are plain
  objects, so \<^verbatim>\<open>user.toObject\<close> is absent and \<^verbatim>\<open>userObj\<close> is the user.
\<close>

definition login_handler ::
  "(obj \<Rightarrow> js_error + obj) \<Rightarrow> (jsval \<Rightarrow> string \<Rightarrow> js_error + bool) \<Rightarrow> bool \<Rightarrow> bool \<Rightarrow>
   mem_storage \<Rightarrow> request \<Rightarrow> result" where
  "login_handler parse bcrypt_compare login_fails development s req =
     (case parse (req_body req) of
        Inl e \<Rightarrow>
          Response 400 (JsonObject [(''message'', JStr ''Login validation failed''),
                                    (''details'', JStr (message e))])
      | Inr credentials \<Rightarrow>
          if \<not> truthy (get_prop credentials ''username'')
             \<or> \<not> truthy (get_prop credentials ''password'')
          then json_message 400 ''Username and password are required''
          else
            (case local_strategy bcrypt_compare s (req_body req) of
               AuthError e \<Rightarrow> json_message 500 ''Internal server error''
             | AuthFail info \<Rightarrow>
                 Response 401
                   (JsonObject [(''message'', JStr ''Invalid username or password''),
                                (''details'', if development then JStr info else JUndefined)])
             | AuthSuccess u \<Rightarrow>
                 if login_fails then json_message 500 ''Error creating login session''
                 else
                   (let userObj = u;
                        safeUser = omit ''password'' userObj
                    in Response 200
                         (JsonObject (spread safeUser
                            [(''message'', JStr ''Login successful'')])))))"

definition me_handler :: "request \<Rightarrow> result" where
  "me_handler req =
     (if \<not> authenticated req then Response 401 JsonNull
      else case user req of
             None \<Rightarrow> Uncaught no_user_error
           | Some u \<Rightarrow>
               (let safeUser = omit ''_rawPassword'' (omit ''password'' u)
                in Response 200 (JsonObject safeUser)))"

section \<open>User and application routes\<close>

subsection \<open>\<^verbatim>\<open>GET /api/users/:id\<close>\<close>

text \<open>
  The route calls \<^verbatim>\<open>storage.getUser\<close> through the storage interface, whose promise may
  reject; the lookup is a parameter here and \<open>mem_getUser\<close> is the in-memory instance.
\<close>

definition get_user_handler :: "(jsval \<Rightarrow> js_error + obj option) \<Rightarrow> request \<Rightarrow> result" where
  "get_user_handler storage_getUser req =
     (let ident = route_id (param_id req) in
      case storage_getUser ident of
        Inl e \<Rightarrow> json_message 500 (message e)
      | Inr None \<Rightarrow> json_message 404 ''User not found''
      | Inr (Some u) \<Rightarrow>
          (let safeUser = omit ''password'' u in Response 200 (JsonObject safeUser)))"

definition mem_getUser :: "mem_storage \<Rightarrow> jsval \<Rightarrow> js_error + obj option" where
  "mem_getUser s ident = Inr (getUser s ident)"

subsection \<open>\<^verbatim>\<open>POST /api/jobs/:id/applications\<close>\<close>

text \<open>
  \<open>upload\<close> is what the file-upload branch does: \<open>None\<close> when the request carries no
  \<^verbatim>\<open>resumeFile\<close>, \<open>Some (Inl e)\<close> when saving the file throws, \<open>Some (Inr url)\<close> when it
  returns the file's url. \<open>now\<close> stands for the dates taken while the request is served.
\<close>

definition post_application_handler ::
  "(js_error + string) option \<Rightarrow> jsval \<Rightarrow> mem_storage \<Rightarrow> request \<Rightarrow> mem_storage \<times> result" where
  "post_application_handler upload now s req =
     (let jobId = route_id (param_id req) in
      case user req of
        None \<Rightarrow> (s, json_message 400 (message no_user_error))
      | Some currentUser \<Rightarrow>
          (let userId = get_prop currentUser ''id'' in
           case getJob s jobId of
             None \<Rightarrow> (s, json_message 404 ''Job not found'')
           | Some job \<Rightarrow>
               if to_string (get_prop job ''userId'') = to_string userId
               then (s, json_message 400 ''You cannot apply to your own job'')
               else if find (\<lambda>app. to_string (get_prop app ''jobId'') = to_string jobId)
                         (getUserApplications s userId) \<noteq> None
               then (s, Response 400
                          (JsonObject [(''message'', JStr ''You have already applied to this job''),
                                       (''code'', JStr ''DUPLICATE_APPLICATION'')]))
               else
                 (let applicationData0 = spread (req_body req)
                        [(''jobId'', jobId), (''status'', JStr ''pending''),
                         (''createdAt'', now), (''updatedAt'', now)]
                  in case upload of
                       Some (Inl e) \<Rightarrow> (s, json_message 400 (message e))
                     | Some (Inr fileUrl) \<Rightarrow>
                         (let applicationData =
                                AList.update ''resumeFile'' (JStr fileUrl) applicationData0;
                              (s', application) = createApplication s now userId applicationData
                          in (s', Response 201 (JsonObject application)))
                     | None \<Rightarrow>
                         (let (s', application) = createApplication s now userId applicationData0
                          in (s', Response 201 (JsonObject application))))))"

definition post_application_route ::
  "(js_error + string) option \<Rightarrow> jsval \<Rightarrow> mem_storage \<Rightarrow> request \<Rightarrow> mem_storage \<times> result" where
  "post_application_route upload now = guarded isAuthenticated (post_application_handler upload now)"

subsection \<open>\<^verbatim>\<open>PUT /api/applications/:id/status\<close>\<close>

definition put_application_status_handler ::
  "mem_storage \<Rightarrow> request \<Rightarrow> mem_storage \<times> result" where
  "put_application_status_handler s req =
     (let status = get_prop (req_body req) ''status'' in
      if \<not> truthy status \<or> \<not> (strict_eq (JStr ''approved'') status \<or> strict_eq (JStr ''rejected'') status)
      then (s, json_message 400 ''Invalid status'')
      else
        (let ident = route_id (param_id req) in
         case getApplication s ident of
           None \<Rightarrow> (s, json_message 404 ''Application not found'')
         | Some application \<Rightarrow>
             (case getJob s (get_prop application ''jobId'') of
                None \<Rightarrow> (s, json_message 404 ''Job not found'')
              | Some job \<Rightarrow>
                  (case user req of
                     None \<Rightarrow> (s, json_message 500 (message no_user_error))
                   | Some currentUser \<Rightarrow>
                       if to_string (get_prop job ''userId'')
                            \<noteq> to_string (get_prop currentUser ''id'')
                       then (s, json_message 403
                                  ''You don't have permission to update this application'')
                       else
                         (let (s', updatedApplication) =
                                updateApplicationStatus s ident
                                  (if status = JStr ''approved'' then Approved else Rejected)
                          in (s', Response 200
                                    (case updatedApplication of
                                       None \<Rightarrow> JsonUndefined
                                     | Some a \<Rightarrow> JsonObject a)))))))"

definition put_application_status_route ::
  "mem_storage \<Rightarrow> request \<Rightarrow> mem_storage \<times> result" where
  "put_application_status_route = guarded isAuthenticated put_application_status_handler"

section \<open>Auxiliary notions for the properties\<close>

text \<open>The body of a successful response (a status below 400 carrying an object).\<close>

definition success_body :: "result \<Rightarrow> obj option" where
  "success_body r =
     (case r of
        Response code (JsonObject b) \<Rightarrow> if code < 400 then Some b else None
      | _ \<Rightarrow> None)"

text \<open>The status code of a response.\<close>

definition response_code :: "result \<Rightarrow> nat option" where
  "response_code r = (case r of Response code b \<Rightarrow> Some code | Uncaught e \<Rightarrow> None)"

text \<open>A property of a record a method returned, when it returned one.\<close>

definition result_prop :: "string \<Rightarrow> obj option \<Rightarrow> jsval option" where
  "result_prop k r = map_option (\<lambda>ob. get_prop ob k) r"

text \<open>
  The representation the create methods establish in each map: no key occurs twice and
  every record is held under the key that its own \<^verbatim>\<open>id\<close> property names.
\<close>

definition own_key :: "int \<times> obj \<Rightarrow> bool" where
  "own_key e = (get_prop (snd e) ''id'' = JNum (fst e))"

definition keyed_by_id :: "table \<Rightarrow> bool" where
  "keyed_by_id m = (distinct (map fst m) \<and> list_all own_key m)"

definition owned_by :: "jsval \<Rightarrow> int \<times> obj \<Rightarrow> bool" where
  "owned_by numericId e = strict_eq (get_prop (snd e) ''userId'') numericId"

definition not_owned_by :: "jsval \<Rightarrow> int \<times> obj \<Rightarrow> bool" where
  "not_owned_by numericId e = (\<not> owned_by numericId e)"

text \<open>The status enumerations of the data model, as predicates on stored records.\<close>

definition application_status_ok :: "int \<times> obj \<Rightarrow> bool" where
  "application_status_ok e =
     (get_prop (snd e) ''status'' \<in> {JStr ''pending'', JStr ''approved'', JStr ''rejected''})"

definition applications_ok :: "mem_storage \<Rightarrow> bool" where
  "applications_ok s = list_all application_status_ok (applications s)"

definition user_status_ok :: "int \<times> obj \<Rightarrow> bool" where
  "user_status_ok e = (get_prop (snd e) ''status'' \<in> {JStr ''active'', JStr ''blocked''})"

definition users_ok :: "mem_storage \<Rightarrow> bool" where
  "users_ok s = list_all user_status_ok (users s)"

text \<open>
  What \<^verbatim>\<open>updateUserStatus\<close> writes into the record \<open>u\<close> it found: the new status, and a
  \<^verbatim>\<open>blockedReason\<close> that is the given reason only when the status is blocked and the reason
  is truthy, \<open>null\<close> when the status is active, and the old value otherwise.
\<close>

definition status_update :: "obj \<Rightarrow> user_status \<Rightarrow> string option \<Rightarrow> obj \<Rightarrow> bool" where
  "status_update u st r u' =
     (get_prop u' ''status'' = JStr (user_status_name st)
      \<and> get_prop u' ''blockedReason'' =
          (if st = Blocked \<and> truthy (reason_value r) then reason_value r
           else if st = Active then JNull
           else get_prop u ''blockedReason''))"

text \<open>A requested status that is neither \<^verbatim>\<open>"approved"\<close> nor \<^verbatim>\<open>"rejected"\<close>.\<close>

definition invalid_status :: "jsval \<Rightarrow> bool" where
  "invalid_status v = (v \<noteq> JStr ''approved'' \<and> v \<noteq> JStr ''rejected'')"

text \<open>The ownership test of the application routes: \<^verbatim>\<open>String(job.userId) === String(userId)\<close>.\<close>

definition is_owner :: "obj \<Rightarrow> obj \<Rightarrow> bool" where
  "is_owner job u = (to_string (get_prop job ''userId'') = to_string (get_prop u ''id''))"


section \<open>Sample data\<close>

definition sample_date :: jsval where
  "sample_date = JObject 0 ''2025-01-01T00:00:00.000Z''"

definition bob_data :: obj where
  "bob_data =
     [(''username'', JStr ''bob''), (''email'', JStr ''bob@example.org''),
      (''password'', JStr ''$2b$10$abcdefghijklmnopqrstuv'')]"

definition alice_data :: obj where
  "alice_data =
     [(''username'', JStr ''alice''), (''email'', JStr ''alice@example.org''),
      (''password'', JStr ''correct horse''), (''role'', JStr ''admin'')]"

definition store_bob :: mem_storage where
  "store_bob = fst (createUser new_MemStorage sample_date bob_data)"

definition bob :: obj where
  "bob = snd (createUser new_MemStorage sample_date bob_data)"

definition store_users :: mem_storage where
  "store_users = fst (createUser store_bob sample_date alice_data)"

definition alice :: obj where
  "alice = snd (createUser store_bob sample_date alice_data)"

text \<open>Bob offers a service and posts a job; so does Alice.\<close>

definition store_service :: mem_storage where
  "store_service =
     fst (createService store_bob sample_date (JNum 1) [(''title'', JStr ''logo design'')])"

definition store_listings :: mem_storage where
  "store_listings =
     fst (createJob
       (fst (createJob
         (fst (createService
           (fst (createService store_users sample_date (JNum 1) [(''title'', JStr ''logo design'')]))
           sample_date (JNum 2) [(''title'', JStr ''translation'')]))
         sample_date (JNum 1) [(''title'', JStr ''web developer'')]))
       sample_date (JNum 2) [(''title'', JStr ''copy editor'')])"

text \<open>Alice has applied to Bob's job.\<close>

definition store_applied :: mem_storage where
  "store_applied =
     fst (createApplication store_listings sample_date (JNum 2)
            [(''jobId'', JNum 1), (''coverLetter'', JStr ''hello'')])"

definition anonymous_request :: request where
  "anonymous_request =
     \<lparr>authenticated = False, user = None, param_id = ''1'',
      req_body = [(''status'', JStr ''archived'')]\<rparr>"

definition bob_request :: request where
  "bob_request =
     \<lparr>authenticated = True, user = Some bob, param_id = ''1'',
      req_body = [(''status'', JStr ''approved''), (''coverLetter'', JStr ''hire me'')]\<rparr>"

definition alice_request :: request where
  "alice_request =
     \<lparr>authenticated = True, user = Some alice, param_id = ''1'',
      req_body = [(''status'', JStr ''archived''), (''coverLetter'', JStr ''hire me'')]\<rparr>"

definition sample_handler :: "mem_storage \<Rightarrow> request \<Rightarrow> mem_storage \<times> result" where
  "sample_handler s req = (s, json_message 200 ''handled'')"

text \<open>Stand-ins for the library functions and the schemas in the sample runs.\<close>

definition accept_schema :: "obj \<Rightarrow> js_error + obj" where
  "accept_schema b = Inr b"

definition reject_schema :: "obj \<Rightarrow> js_error + obj" where
  "reject_schema b = Inl (Error ''Required'')"

definition sample_hash :: "jsval \<Rightarrow> js_error + string" where
  "sample_hash p = Inr (''$2b$10$'' @ to_string p)"

definition sample_compare :: "jsval \<Rightarrow> string \<Rightarrow> js_error + bool" where
  "sample_compare p h =
     (case p of
        JStr t \<Rightarrow> Inr (h = ''$2b$10$'' @ t)
      | other \<Rightarrow> Inl (Error ''data and hash must be strings''))"

definition failing_getUser :: "jsval \<Rightarrow> js_error + obj option" where
  "failing_getUser ident = Inl (Error ''connection lost'')"

text \<open>Bob's record without its password, as the routes send it.\<close>

definition bob_public :: obj where
  "bob_public =
     [(''username'', JStr ''bob''), (''email'', JStr ''bob@example.org''),
      (''id'', JNum 1), (''createdAt'', sample_date), (''role'', JStr ''freelancer''),
      (''status'', JStr ''active''), (''blockedReason'', JNull), (''bio'', JNull),
      (''profilePicture'', JNull)]"

text \<open>Registration and login requests.\<close>

definition register_bob_request :: request where
  "register_bob_request =
     \<lparr>authenticated = False, user = None, param_id = [],
      req_body = [(''username'', JStr ''bob''), (''email'', JStr ''bob@example.org''),
                  (''password'', JStr ''abcdefghijklmnopqrstuv''),
                  (''confirmPassword'', JStr ''abcdefghijklmnopqrstuv'')]\<rparr>"

definition bob_registered :: obj where
  "bob_registered =
     [(''username'', JStr ''bob''), (''email'', JStr ''bob@example.org''),
      (''confirmPassword'', JStr ''abcdefghijklmnopqrstuv''),
      (''id'', JNum 1), (''createdAt'', sample_date), (''role'', JStr ''freelancer''),
      (''status'', JStr ''active''), (''blockedReason'', JNull), (''bio'', JNull),
      (''profilePicture'', JNull)]"

definition bob_logged_in :: obj where
  "bob_logged_in = bob_public @ [(''message'', JStr ''Login successful'')]"

definition duplicate_request :: request where
  "duplicate_request =
     \<lparr>authenticated = False, user = None, param_id = [],
      req_body = [(''username'', JStr ''bob''), (''email'', JStr ''robert@example.org''),
                  (''password'', JStr ''secret12''), (''confirmPassword'', JStr ''secret12'')]\<rparr>"

definition mismatch_request :: request where
  "mismatch_request =
     \<lparr>authenticated = False, user = None, param_id = [],
      req_body = [(''username'', JStr ''bob''), (''email'', JStr ''robert@example.org''),
                  (''password'', JStr ''secret12''), (''confirmPassword'', JStr ''secret21'')]\<rparr>"

definition login_bob_request :: request where
  "login_bob_request =
     \<lparr>authenticated = False, user = None, param_id = [],
      req_body = [(''username'', JStr ''bob''),
                  (''password'', JStr ''abcdefghijklmnopqrstuv'')]\<rparr>"

definition missing_user_request :: request where
  "missing_user_request =
     \<lparr>authenticated = False, user = None, param_id = ''7'', req_body = []\<rparr>"

text \<open>Alice's application to Bob's job, as \<open>store_applied\<close> holds it.\<close>

definition alice_application :: obj where
  "alice_application =
     snd (createApplication store_listings sample_date (JNum 2)
            [(''jobId'', JNum 1), (''coverLetter'', JStr ''hello'')])"

text \<open>Bob blocked for spam.\<close>

definition store_blocked :: mem_storage where
  "store_blocked = fst (updateUserStatus store_users (JNum 1) Blocked (Some ''spam''))"

text \<open>
  Bob's record after \<^verbatim>\<open>updateUser(1, {status: "suspended"})\<close>, which is what
  \<^verbatim>\<open>PUT /api/users/1\<close> calls with that request body.
\<close>

definition store_suspended :: mem_storage where
  "store_suspended = fst (updateUser store_users (JNum 1) [(''status'', JStr ''suspended'')])"

text \<open>
  The listings after \<^verbatim>\<open>updateUser(1, {id: "01"})\<close>, which is what \<^verbatim>\<open>PUT /api/users/1\<close>
  calls when Bob sends that body: his record is still under key 1 and now carries the id
  \<^verbatim>\<open>"01"\<close>. \<open>bob_renumbered\<close> is that record, which the session gives as \<^verbatim>\<open>req.user\<close>, and
  \<open>renumbered_request\<close> is Bob's request for job 1, the job he posted.
\<close>

definition store_renumbered :: mem_storage where
  "store_renumbered = fst (updateUser store_listings (JNum 1) [(''id'', JStr ''01'')])"

definition bob_renumbered :: obj where
  "bob_renumbered = AList.update ''id'' (JStr ''01'') bob"

definition renumbered_request :: request where
  "renumbered_request =
     \<lparr>authenticated = True, user = Some bob_renumbered, param_id = ''1'',
      req_body = [(''coverLetter'', JStr ''hire me'')]\<rparr>"

text \<open>
  The listings after \<^verbatim>\<open>updateService(1, {id: 2})\<close>: Bob's service is still held under key 1
  and now carries the id of Alice's service.
\<close>

definition store_relabelled :: mem_storage where
  "store_relabelled = fst (updateService store_listings (JNum 1) [(''id'', JNum 2)])"

section \<open>Basic facts about objects and maps\<close>

lemma get_prop_update:
  "get_prop (AList.update k v ob) k' = (if k' = k then v else get_prop ob k')"
  by (simp add: get_prop_def update_conv')

lemma keys_spread: "fst ` set (spread base props) = fst ` set base \<union> fst ` set props"
proof (induction props arbitrary: base)
  case Nil
  show ?case by (simp add: spread_def)
next
  case (Cons p props)
  have "spread base (p # props) = spread (AList.update (fst p) (snd p) base) props"
    by (simp add: spread_def split_beta)
  then show ?case
    using Cons.IH [of "AList.update (fst p) (snd p) base"] by (simp add: dom_update)
qed

lemma spread_member:
  assumes "(k, v) \<in> set (spread base props)"
  shows "k \<in> fst ` set base \<or> k \<in> fst ` set props"
proof -
  from assms have "fst (k, v) \<in> fst ` set (spread base props)" by (rule imageI)
  then show ?thesis by (simp add: keys_spread)
qed

lemma in_omit [simp]:
  "(k', v) \<in> set (omit k ob) \<longleftrightarrow> k' \<noteq> k \<and> (k', v) \<in> set ob"
  by (auto simp: omit_def AList.delete_eq)

lemma omit_absent_key [simp]: "k \<notin> fst ` set (omit k ob)"
  by (simp add: omit_def delete_notin_dom)

lemma lookup_id_numeric: "lookup_id m ident = map_get m (numeric_id ident)"
  by (simp add: lookup_id_def numeric_id_def)

lemma list_all_update:
  "list_all P m \<Longrightarrow> P (k, v) \<Longrightarrow> list_all P (AList.update k v m)"
  by (induction m) auto

lemma map_get_map_set: "map_get m key = Some u \<Longrightarrow> map_get (map_set m key v) key = Some v"
  by (cases key) (simp_all add: update_conv')

lemma list_all_map_set:
  "list_all P m \<Longrightarrow> (\<And>k. P (k, v)) \<Longrightarrow> list_all P (map_set m key v)"
  by (cases key) (simp_all add: list_all_update)

section \<open>Id resolution in the in-memory store\<close>

text \<open>
  C1. The claim: for every id that is a string of 24 hexadecimal digits,
  \<^verbatim>\<open>MemStorage.getUser\<close> and \<^verbatim>\<open>MemStorage.getService\<close> return \<open>undefined\<close>. The code
  does not do that: \<^verbatim>\<open>parseInt\<close> reads the leading decimal digits of such a string, so
  the id \<^verbatim>\<open>1aaaaaaaaaaaaaaaaaaaaaaa\<close> is looked up under key 1 and the stored record comes
  back. The theorem evaluates both methods at that id, in the store holding Bob and his
  service.
\<close>

theorem C1_objectid_resolves_to_record:
  "is_objectid ''1aaaaaaaaaaaaaaaaaaaaaaa''
   \<and> parseInt (JStr ''1aaaaaaaaaaaaaaaaaaaaaaa'') = JNum 1
   \<and> getUser store_service (JStr ''1aaaaaaaaaaaaaaaaaaaaaaa'') = Some bob
   \<and> result_prop ''title'' (getService store_service (JStr ''1aaaaaaaaaaaaaaaaaaaaaaa''))
       = Some (JStr ''logo design'')"
  by code_simp

section \<open>Route guards\<close>

text \<open>
  C6. A route guarded by \<^verbatim>\<open>isAuthenticated\<close> answers 401 with a JSON message for every
  request without an authenticated session, whatever its handler is and leaving the state
  as it was, and runs the handler otherwise. A route guarded by \<^verbatim>\<open>isAdmin\<close> answers 401
  when the request is unauthenticated, 403 when it is authenticated and the user's role is
  not \<^verbatim>\<open>"admin"\<close>, and runs its handler exactly for an authenticated admin.
\<close>

theorem C6_guards:
  "(\<not> authenticated req \<longrightarrow>
      guarded isAuthenticated h s req = (s, json_message 401 ''Unauthorized''))
 \<and> (authenticated req \<longrightarrow> guarded isAuthenticated h s req = h s req)
 \<and> (\<not> authenticated req \<longrightarrow>
      guarded isAdmin h s req = (s, json_message 401 ''Unauthorized, please log in''))
 \<and> (authenticated req
      \<and> (\<forall>u. user req = Some u \<longrightarrow> \<not> strict_eq (get_prop u ''role'') (JStr ''admin''))
    \<longrightarrow> guarded isAdmin h s req
          = (s, json_message 403 ''Access denied. Admin privileges required.''))
 \<and> (authenticated req
      \<and> (\<exists>u. user req = Some u \<and> strict_eq (get_prop u ''role'') (JStr ''admin''))
    \<longrightarrow> guarded isAdmin h s req = h s req)"
  by (auto simp: guarded_def isAuthenticated_def isAdmin_def split: option.splits)

text \<open>The guards on an anonymous request, on Bob's (a freelancer) and on Alice's (an admin).\<close>

theorem C6_guards_witness:
  "\<not> authenticated anonymous_request
   \<and> guarded isAuthenticated sample_handler store_users anonymous_request
       = (store_users, json_message 401 ''Unauthorized'')
   \<and> guarded isAdmin sample_handler store_users anonymous_request
       = (store_users, json_message 401 ''Unauthorized, please log in'')
   \<and> authenticated bob_request
   \<and> guarded isAuthenticated sample_handler store_users bob_request
       = sample_handler store_users bob_request
   \<and> get_prop bob ''role'' = JStr ''freelancer''
   \<and> guarded isAdmin sample_handler store_users bob_request
       = (store_users, json_message 403 ''Access denied. Admin privileges required.'')
   \<and> authenticated alice_request
   \<and> get_prop alice ''role'' = JStr ''admin''
   \<and> guarded isAdmin sample_handler store_users alice_request
       = sample_handler store_users alice_request"
proof -
  have anon: "\<not> authenticated anonymous_request"
    by (simp add: anonymous_request_def)
  have b: "authenticated bob_request" "user bob_request = Some bob"
    by (simp_all add: bob_request_def)
  have a: "authenticated alice_request" "user alice_request = Some alice"
    by (simp_all add: alice_request_def)
  have rb: "get_prop bob ''role'' = JStr ''freelancer''" by code_simp
  have ra: "get_prop alice ''role'' = JStr ''admin''" by code_simp
  show ?thesis
    using C6_guards [of anonymous_request sample_handler store_users]
      C6_guards [of bob_request sample_handler store_users]
      C6_guards [of alice_request sample_handler store_users]
      anon a b ra rb
    by simp
qed

section \<open>Reading a user\<close>

text \<open>
  C7. For every request and every behaviour of the storage lookup, the handler of
  \<^verbatim>\<open>GET /api/users/:id\<close> sends exactly one JSON response: 200 with the found user without
  its password, 404 with \<^verbatim>\<open>"User not found"\<close> when the lookup returns \<open>undefined\<close>, or 500
  with the error's message when the lookup throws. No error escapes the handler.
\<close>

theorem C7_get_user_responses:
  "(storage_getUser (route_id (param_id req)) = Inr (Some u) \<longrightarrow>
      get_user_handler storage_getUser req = Response 200 (JsonObject (omit ''password'' u)))
 \<and> (storage_getUser (route_id (param_id req)) = Inr None \<longrightarrow>
      get_user_handler storage_getUser req = json_message 404 ''User not found'')
 \<and> (storage_getUser (route_id (param_id req)) = Inl e \<longrightarrow>
      get_user_handler storage_getUser req = json_message 500 (message e))
 \<and> (\<exists>code b. get_user_handler storage_getUser req = Response code (JsonObject b)
        \<and> code \<in> {200, 404, 500})"
  by (auto simp: get_user_handler_def json_message_def Let_def split: sum.splits option.splits)

text \<open>
  The three outcomes on the in-memory store holding Bob under key 1, and on a storage
  whose lookup fails.
\<close>

theorem C7_get_user_responses_witness:
  "mem_getUser store_bob (route_id (param_id bob_request)) = Inr (Some bob)
   \<and> get_user_handler (mem_getUser store_bob) bob_request
       = Response 200 (JsonObject (omit ''password'' bob))
   \<and> mem_getUser store_bob (route_id (param_id missing_user_request)) = Inr None
   \<and> get_user_handler (mem_getUser store_bob) missing_user_request
       = json_message 404 ''User not found''
   \<and> failing_getUser (route_id (param_id bob_request)) = Inl (Error ''connection lost'')
   \<and> get_user_handler failing_getUser bob_request = json_message 500 ''connection lost''"
proof -
  have found: "mem_getUser store_bob (route_id (param_id bob_request)) = Inr (Some bob)"
    by code_simp
  have missing: "mem_getUser store_bob (route_id (param_id missing_user_request)) = Inr None"
    by code_simp
  have failing: "failing_getUser (route_id (param_id bob_request)) = Inl (Error ''connection lost'')"
    by (simp add: failing_getUser_def)
  show ?thesis
    using C7_get_user_responses [of "mem_getUser store_bob" bob_request bob]
      C7_get_user_responses [of "mem_getUser store_bob" missing_user_request]
      C7_get_user_responses [of failing_getUser bob_request _ "Error ''connection lost''"]
      found missing failing
    by simp
qed

section \<open>Passwords in responses\<close>

text \<open>
  C9. No successful JSON response of \<^verbatim>\<open>POST /api/auth/register\<close>,
  \<^verbatim>\<open>POST /api/auth/login\<close>, \<^verbatim>\<open>GET /api/auth/me\<close> or \<^verbatim>\<open>GET /api/users/:id\<close> has a
  \<^verbatim>\<open>password\<close> property: each handler takes the password out of the user object before it
  sends the rest.
\<close>

theorem C9_no_password_in_response:
  "(success_body (snd (register_handler parse bcrypt_hash login_fails now s req)) = Some b
      \<longrightarrow> ''password'' \<notin> fst ` set b)
 \<and> (success_body (login_handler parse bcrypt_compare login_fails development s req) = Some b
      \<longrightarrow> ''password'' \<notin> fst ` set b)
 \<and> (success_body (me_handler req) = Some b \<longrightarrow> ''password'' \<notin> fst ` set b)
 \<and> (success_body (get_user_handler storage_getUser req) = Some b
      \<longrightarrow> ''password'' \<notin> fst ` set b)"
proof -
  have reg: "success_body (snd (register_handler parse bcrypt_hash login_fails now s req)) = Some b
      \<longrightarrow> ''password'' \<notin> fst ` set b"
    by (auto simp: register_handler_def success_body_def json_message_def Let_def
             split: sum.splits if_splits prod.splits)
  have login: "success_body (login_handler parse bcrypt_compare login_fails development s req) = Some b
      \<longrightarrow> ''password'' \<notin> fst ` set b"
    by (auto simp: login_handler_def success_body_def json_message_def Let_def
             split: sum.splits if_splits auth_result.splits dest!: spread_member)
  have me: "success_body (me_handler req) = Some b \<longrightarrow> ''password'' \<notin> fst ` set b"
    by (auto simp: me_handler_def success_body_def Let_def split: option.splits if_splits)
  have get: "success_body (get_user_handler storage_getUser req) = Some b
      \<longrightarrow> ''password'' \<notin> fst ` set b"
    by (auto simp: get_user_handler_def success_body_def json_message_def Let_def
             split: sum.splits option.splits if_splits)
  from reg login me get show ?thesis by (intro conjI)
qed

text \<open>
  Bob registers, logs in, asks for his session and is looked up: each response is a success
  and carries his record without the password.
\<close>

theorem C9_no_password_in_response_witness:
  "success_body (snd (register_handler accept_schema sample_hash False sample_date
                        new_MemStorage register_bob_request)) = Some bob_registered
   \<and> ''password'' \<notin> fst ` set bob_registered
   \<and> success_body (login_handler accept_schema sample_compare False False
                     store_users login_bob_request) = Some bob_logged_in
   \<and> ''password'' \<notin> fst ` set bob_logged_in
   \<and> success_body (me_handler bob_request) = Some bob_public
   \<and> success_body (get_user_handler (mem_getUser store_bob) bob_request) = Some bob_public
   \<and> ''password'' \<notin> fst ` set bob_public"
proof -
  have reg: "success_body (snd (register_handler accept_schema sample_hash False sample_date
                        new_MemStorage register_bob_request)) = Some bob_registered"
    by code_simp
  have login: "success_body (login_handler accept_schema sample_compare False False
                     store_users login_bob_request) = Some bob_logged_in"
    by code_simp
  have me: "success_body (me_handler bob_request) = Some bob_public"
    by code_simp
  have get: "success_body (get_user_handler (mem_getUser store_bob) bob_request) = Some bob_public"
    by code_simp
  show ?thesis
    using C9_no_password_in_response [where parse = accept_schema and bcrypt_hash = sample_hash
        and login_fails = False and now = sample_date and s = new_MemStorage
        and req = register_bob_request and b = bob_registered
        and bcrypt_compare = sample_compare and development = False
        and storage_getUser = failing_getUser]
      C9_no_password_in_response [where parse = accept_schema and bcrypt_hash = sample_hash
        and login_fails = False and now = sample_date and s = store_users
        and req = login_bob_request and b = bob_logged_in
        and bcrypt_compare = sample_compare and development = False
        and storage_getUser = failing_getUser]
      C9_no_password_in_response [where parse = accept_schema and bcrypt_hash = sample_hash
        and login_fails = False and now = sample_date and s = store_bob
        and req = bob_request and b = bob_public
        and bcrypt_compare = sample_compare and development = False
        and storage_getUser = "mem_getUser store_bob"]
      reg login me get
    by simp
qed

section \<open>Registration with a taken username\<close>

text \<open>
  The claim C2 as it is written fails: a request that names an existing username gets
  another message when its two passwords differ, or when the schema rejects the body. Bob is
  stored, the requests below name \<^verbatim>\<open>bob\<close>, and the responses are 400 with
  \<^verbatim>\<open>"Passwords do not match"\<close> and with the schema's own message.
\<close>

theorem C2_register_duplicate_counterexample:
  "getUserByUsername store_bob (get_prop (req_body mismatch_request) ''username'') = Some bob
   \<and> register_handler accept_schema sample_hash False sample_date store_bob mismatch_request
       = (store_bob, json_message 400 ''Passwords do not match'')
   \<and> register_handler reject_schema sample_hash False sample_date store_bob duplicate_request
       = (store_bob, json_message 400 ''Required'')
   \<and> json_message 400 ''Passwords do not match'' \<noteq> json_message 400 ''Username already exists''
   \<and> json_message 400 ''Required'' \<noteq> json_message 400 ''Username already exists''"
  by code_simp

text \<open>
  C2, amended. When the body passes \<^verbatim>\<open>insertUserSchema\<close>, its \<^verbatim>\<open>password\<close> and
  \<^verbatim>\<open>confirmPassword\<close> are strictly equal and a stored user has the validated username,
  \<^verbatim>\<open>POST /api/auth/register\<close> responds 400 with \<^verbatim>\<open>"Username already exists"\<close> and leaves
  the store as it was. When the two passwords differ the response is 400 with
  \<^verbatim>\<open>"Passwords do not match"\<close>, when the schema throws it is 400 with the error's message,
  and the store is unchanged in both cases too.
\<close>

theorem C2_register_duplicate:
  "(parse (req_body req) = Inr userData
      \<and> strict_eq (get_prop userData ''password'') (get_prop userData ''confirmPassword'')
      \<and> getUserByUsername s (get_prop userData ''username'') = Some existing
    \<longrightarrow> register_handler parse bcrypt_hash login_fails now s req
          = (s, json_message 400 ''Username already exists''))
 \<and> (parse (req_body req) = Inr userData
      \<and> \<not> strict_eq (get_prop userData ''password'') (get_prop userData ''confirmPassword'')
    \<longrightarrow> register_handler parse bcrypt_hash login_fails now s req
          = (s, json_message 400 ''Passwords do not match''))
 \<and> (parse (req_body req) = Inl e
    \<longrightarrow> register_handler parse bcrypt_hash login_fails now s req
          = (s, json_message 400 (message e)))"
  by (simp add: register_handler_def)

text \<open>The three cases on the store that holds Bob.\<close>

theorem C2_register_duplicate_witness:
  "accept_schema (req_body duplicate_request) = Inr (req_body duplicate_request)
   \<and> strict_eq (get_prop (req_body duplicate_request) ''password'')
        (get_prop (req_body duplicate_request) ''confirmPassword'')
   \<and> getUserByUsername store_bob (get_prop (req_body duplicate_request) ''username'') = Some bob
   \<and> register_handler accept_schema sample_hash False sample_date store_bob duplicate_request
       = (store_bob, json_message 400 ''Username already exists'')
   \<and> accept_schema (req_body mismatch_request) = Inr (req_body mismatch_request)
   \<and> \<not> strict_eq (get_prop (req_body mismatch_request) ''password'')
          (get_prop (req_body mismatch_request) ''confirmPassword'')
   \<and> register_handler accept_schema sample_hash False sample_date store_bob mismatch_request
       = (store_bob, json_message 400 ''Passwords do not match'')
   \<and> reject_schema (req_body duplicate_request) = Inl (Error ''Required'')
   \<and> register_handler reject_schema sample_hash False sample_date store_bob duplicate_request
       = (store_bob, json_message 400 ''Required'')"
proof -
  have p1: "accept_schema (req_body duplicate_request) = Inr (req_body duplicate_request)"
    and p2: "accept_schema (req_body mismatch_request) = Inr (req_body mismatch_request)"
    and p3: "reject_schema (req_body duplicate_request) = Inl (Error ''Required'')"
    by (simp_all add: accept_schema_def reject_schema_def)
  have eq: "strict_eq (get_prop (req_body duplicate_request) ''password'')
        (get_prop (req_body duplicate_request) ''confirmPassword'')"
    by code_simp
  have ne: "\<not> strict_eq (get_prop (req_body mismatch_request) ''password'')
          (get_prop (req_body mismatch_request) ''confirmPassword'')"
    by code_simp
  have taken: "getUserByUsername store_bob (get_prop (req_body duplicate_request) ''username'')
                 = Some bob"
    by code_simp
  show ?thesis
    using C2_register_duplicate [where parse = accept_schema and req = duplicate_request
        and userData = "req_body duplicate_request" and s = store_bob and existing = bob
        and bcrypt_hash = sample_hash and login_fails = False and now = sample_date
        and e = "Error ''Required''"]
      C2_register_duplicate [where parse = accept_schema and req = mismatch_request
        and userData = "req_body mismatch_request" and s = store_bob and existing = bob
        and bcrypt_hash = sample_hash and login_fails = False and now = sample_date
        and e = "Error ''Required''"]
      C2_register_duplicate [where parse = reject_schema and req = duplicate_request
        and userData = "req_body duplicate_request" and s = store_bob and existing = bob
        and bcrypt_hash = sample_hash and login_fails = False and now = sample_date
        and e = "Error ''Required''"]
      p1 p2 p3 eq ne taken
    by simp
qed

section \<open>Applying to one's own job\<close>

lemma createApplication_stored:
  "createApplication s now uid a = (s', app) \<Longrightarrow>
     get_prop app ''status'' = JStr ''pending''
     \<and> get_prop app ''id'' = JNum (currentApplicationId s)
     \<and> get_prop app ''userId'' = normalize_id uid
     \<and> applications s' = AList.update (currentApplicationId s) app (applications s)"
  by (auto simp: createApplication_def Let_def spread_def get_prop_update)

lemma createApplication_jobId:
  "createApplication s now uid a = (s', app) \<Longrightarrow> get_prop app ''jobId'' = get_prop a ''jobId''"
  by (auto simp: createApplication_def Let_def spread_def get_prop_update)

lemma createApplication_frame:
  "createApplication s now uid a = (s', app) \<Longrightarrow>
     s' = s\<lparr>applications := AList.update (currentApplicationId s) app (applications s),
            currentApplicationId := currentApplicationId s + 1\<rparr>"
  by (auto simp: createApplication_def Let_def)

lemma post_application_own_job:
  assumes "user req = Some u" and "getJob s (route_id (param_id req)) = Some job"
    and "is_owner job u"
  shows "post_application_handler upload now s req
           = (s, json_message 400 ''You cannot apply to your own job'')"
  using assms by (simp add: post_application_handler_def Let_def is_owner_def)

lemma post_application_stores:
  assumes "post_application_handler upload now s req = (s', r)" and "s' \<noteq> s"
  shows "\<exists>u job app. user req = Some u \<and> getJob s (route_id (param_id req)) = Some job
           \<and> \<not> is_owner job u
           \<and> r = Response 201 (JsonObject app)
           \<and> s' = s\<lparr>applications := AList.update (currentApplicationId s) app (applications s),
                     currentApplicationId := currentApplicationId s + 1\<rparr>
           \<and> get_prop app ''jobId'' = route_id (param_id req)
           \<and> get_prop app ''userId'' = normalize_id (get_prop u ''id'')"
proof -
  from assms obtain u where u: "user req = Some u"
    by (cases "user req") (auto simp: post_application_handler_def Let_def)
  from assms u obtain job where job: "getJob s (route_id (param_id req)) = Some job"
    by (cases "getJob s (route_id (param_id req))")
       (auto simp: post_application_handler_def Let_def)
  from assms u job have no: "\<not> is_owner job u"
    by (auto simp: post_application_handler_def Let_def is_owner_def)
  define data0 where "data0 = spread (req_body req)
                        [(''jobId'', route_id (param_id req)), (''status'', JStr ''pending''),
                         (''createdAt'', now), (''updatedAt'', now)]"
  have j0: "get_prop data0 ''jobId'' = route_id (param_id req)"
    by (simp add: data0_def spread_def get_prop_update)
  from assms u job no obtain data where
    c: "createApplication s now (get_prop u ''id'') data
          = (s', case r of Response c (JsonObject a) \<Rightarrow> a | _ \<Rightarrow> [])"
    and r: "\<exists>a. r = Response 201 (JsonObject a)"
    and d: "get_prop data ''jobId'' = route_id (param_id req)"
    using j0 unfolding data0_def
    by (auto simp: post_application_handler_def Let_def is_owner_def get_prop_update
             split: if_splits option.splits sum.splits prod.splits)
  from r obtain app where app: "r = Response 201 (JsonObject app)" by blast
  with c have c': "createApplication s now (get_prop u ''id'') data = (s', app)" by simp
  from createApplication_stored [OF c'] createApplication_jobId [OF c']
    createApplication_frame [OF c'] u job no app d
  show ?thesis by auto
qed

text \<open>
  What the guard of \<^verbatim>\<open>POST /api/jobs/:id/applications\<close> does: when the session's user and
  the job the id resolves to pass the test \<^verbatim>\<open>String(job.userId) === String(userId)\<close>, the
  route responds 400 with \<^verbatim>\<open>"You cannot apply to your own job"\<close> and leaves the store as it
  was; whenever the route changes the store, that test has failed, and the one application
  it adds carries the job's id and the parsed id of the user.
\<close>

lemma post_application_route_guard:
  "(authenticated req \<and> user req = Some u \<and> getJob s (route_id (param_id req)) = Some job
      \<and> to_string (get_prop job ''userId'') = to_string (get_prop u ''id'')
    \<longrightarrow> post_application_route upload now s req
          = (s, json_message 400 ''You cannot apply to your own job''))
 \<and> (fst (post_application_route upload now s req) \<noteq> s
    \<longrightarrow> (\<exists>v owned app. user req = Some v \<and> getJob s (route_id (param_id req)) = Some owned
           \<and> to_string (get_prop owned ''userId'') \<noteq> to_string (get_prop v ''id'')
           \<and> applications (fst (post_application_route upload now s req))
               = AList.update (currentApplicationId s) app (applications s)
           \<and> get_prop app ''jobId'' = route_id (param_id req)
           \<and> get_prop app ''userId'' = normalize_id (get_prop v ''id'')))"
proof -
  have own: "authenticated req \<and> user req = Some u \<and> getJob s (route_id (param_id req)) = Some job
      \<and> to_string (get_prop job ''userId'') = to_string (get_prop u ''id'')
    \<longrightarrow> post_application_route upload now s req
          = (s, json_message 400 ''You cannot apply to your own job'')"
    by (simp add: post_application_route_def guarded_def isAuthenticated_def
          post_application_own_job is_owner_def)
  have stored: "fst (post_application_route upload now s req) \<noteq> s
    \<longrightarrow> (\<exists>v owned app. user req = Some v \<and> getJob s (route_id (param_id req)) = Some owned
           \<and> to_string (get_prop owned ''userId'') \<noteq> to_string (get_prop v ''id'')
           \<and> applications (fst (post_application_route upload now s req))
               = AList.update (currentApplicationId s) app (applications s)
           \<and> get_prop app ''jobId'' = route_id (param_id req)
           \<and> get_prop app ''userId'' = normalize_id (get_prop v ''id''))"
  proof
    assume ch: "fst (post_application_route upload now s req) \<noteq> s"
    then have auth: "authenticated req"
      by (auto simp: post_application_route_def guarded_def isAuthenticated_def split: if_splits)
    then have eq: "post_application_route upload now s req
                     = post_application_handler upload now s req"
      by (simp add: post_application_route_def guarded_def isAuthenticated_def)
    obtain s' r where h: "post_application_handler upload now s req = (s', r)"
      by (cases "post_application_handler upload now s req")
    with ch eq have "s' \<noteq> s" by simp
    from post_application_stores [OF h this] eq h
    show "\<exists>v owned app. user req = Some v \<and> getJob s (route_id (param_id req)) = Some owned
           \<and> to_string (get_prop owned ''userId'') \<noteq> to_string (get_prop v ''id'')
           \<and> applications (fst (post_application_route upload now s req))
               = AList.update (currentApplicationId s) app (applications s)
           \<and> get_prop app ''jobId'' = route_id (param_id req)
           \<and> get_prop app ''userId'' = normalize_id (get_prop v ''id'')"
      by (auto simp: is_owner_def)
  qed
  from own stored show ?thesis by (intro conjI)
qed

text \<open>
  C3. The claim: for every authenticated user and every existing job, if the user is the
  job's owner (\<^verbatim>\<open>String(job.userId)\<close> equals \<^verbatim>\<open>String(userId)\<close>) the route
  \<^verbatim>\<open>POST /api/jobs/:id/applications\<close> responds 400 and creates no application; hence the
  route never stores an application linking a user to their own job. The code does the
  first and misses the second: the guard compares the two ids as strings, while
  \<^verbatim>\<open>createApplication\<close> stores the id after \<^verbatim>\<open>parseInt\<close>. Bob posted job 1 as user 1 and
  his record now carries the id \<^verbatim>\<open>"01"\<close>. His request for job 1 passes the guard
  (\<^verbatim>\<open>"1"\<close> is not \<^verbatim>\<open>"01"\<close>), is answered 201, and the application stored under key 1 has
  the \<^verbatim>\<open>userId\<close> 1 of the job's owner.
\<close>

theorem C3_own_job_application_stored:
  "getUser store_renumbered (JNum 1) = Some bob_renumbered
   \<and> get_prop bob_renumbered ''id'' = JStr ''01''
   \<and> get_prop bob_renumbered ''username'' = JStr ''bob''
   \<and> result_prop ''userId'' (getJob store_renumbered (route_id (param_id renumbered_request)))
       = Some (JNum 1)
   \<and> getApplication store_renumbered (JNum 1) = None
   \<and> response_code (snd (post_application_route None sample_date store_renumbered
                           renumbered_request)) = Some 201
   \<and> result_prop ''userId''
        (getApplication (fst (post_application_route None sample_date store_renumbered
                                renumbered_request)) (JNum 1)) = Some (JNum 1)
   \<and> result_prop ''jobId''
        (getApplication (fst (post_application_route None sample_date store_renumbered
                                renumbered_request)) (JNum 1)) = Some (JNum 1)"
  by code_simp

section \<open>The status of an application\<close>

lemma createApplication_ok:
  "createApplication s now uid a = (s', app) \<Longrightarrow> applications_ok s \<Longrightarrow> applications_ok s'"
  using createApplication_stored [of s now uid a s' app]
  by (simp add: applications_ok_def list_all_update application_status_ok_def)

lemma updateApplicationStatus_miss:
  "getApplication s ident = None \<Longrightarrow> updateApplicationStatus s ident st = (s, None)"
  by (simp add: getApplication_def lookup_id_numeric updateApplicationStatus_def Let_def)

lemma updateApplicationStatus_hit:
  assumes "getApplication s ident = Some a"
  shows "\<exists>a'. updateApplicationStatus s ident st
                = (s\<lparr>applications := map_set (applications s) (numeric_id ident) a'\<rparr>, Some a')
              \<and> get_prop a' ''status'' = JStr (application_status_name st)"
proof -
  from assms have g: "map_get (applications s) (numeric_id ident) = Some a"
    by (simp add: getApplication_def lookup_id_numeric)
  then have n: "numeric_id ident \<noteq> JUndefined" by auto
  show ?thesis
    using g n
    by (auto simp: updateApplicationStatus_def Let_def spread_def get_prop_update)
qed

lemma updateApplicationStatus_ok:
  assumes "applications_ok s"
  shows "applications_ok (fst (updateApplicationStatus s ident st))"
proof (cases "getApplication s ident")
  case None
  with assms show ?thesis by (simp add: updateApplicationStatus_miss)
next
  case (Some a)
  from updateApplicationStatus_hit [OF Some, of st] obtain a' where
    a': "updateApplicationStatus s ident st
           = (s\<lparr>applications := map_set (applications s) (numeric_id ident) a'\<rparr>, Some a')"
      "get_prop a' ''status'' = JStr (application_status_name st)" by blast
  have "application_status_ok (k, a')" for k
    using a'(2) by (cases st) (simp_all add: application_status_ok_def)
  with assms a'(1) show ?thesis
    by (simp add: applications_ok_def list_all_map_set)
qed

lemma put_status_invalid:
  "invalid_status (get_prop (req_body req) ''status'') \<Longrightarrow>
   put_application_status_handler s req = (s, json_message 400 ''Invalid status'')"
  by (cases "get_prop (req_body req) ''status''")
     (auto simp: put_application_status_handler_def invalid_status_def Let_def)

lemma put_status_ok:
  assumes "applications_ok s"
  shows "applications_ok (fst (put_application_status_handler s req))"
proof -
  have "applications_ok (fst (updateApplicationStatus s i st))" for i st
    by (rule updateApplicationStatus_ok [OF assms])
  with assms show ?thesis
    by (auto simp: put_application_status_handler_def Let_def split_beta split: option.splits)
qed

text \<open>
  The claim C4 as it is written fails in its last part: the route is guarded, so a request
  without a session that asks for the status \<^verbatim>\<open>"archived"\<close> is answered 401, not 400.
\<close>

theorem C4_application_status_counterexample:
  "invalid_status (get_prop (req_body anonymous_request) ''status'')
   \<and> put_application_status_route store_applied anonymous_request
       = (store_applied, json_message 401 ''Unauthorized'')
   \<and> json_message 401 ''Unauthorized'' \<noteq> json_message 400 ''Invalid status''"
  by code_simp

text \<open>
  C4, amended. Every application's status stays in \<open>{pending, approved, rejected}\<close>:
  \<^verbatim>\<open>createApplication\<close> stores every new application with status \<^verbatim>\<open>"pending"\<close> whatever
  status its input carries; \<^verbatim>\<open>updateApplicationStatus\<close> writes the name of one of the three
  values into the application it finds and changes nothing when it finds none; and
  \<^verbatim>\<open>PUT /api/applications/:id/status\<close>, for any requested status other than
  \<^verbatim>\<open>"approved"\<close> or \<^verbatim>\<open>"rejected"\<close>, leaves the store as it was and responds 400 when the
  request is authenticated (401 when it is not). All three keep every stored application's
  status in the enumeration.
\<close>

theorem C4_application_status:
  "(createApplication s now uid a = (s', app) \<longrightarrow>
      get_prop app ''status'' = JStr ''pending''
      \<and> getApplication s' (JNum (currentApplicationId s)) = Some app)
 \<and> (getApplication s ident = Some b \<longrightarrow>
      (\<exists>b'. updateApplicationStatus s ident st
               = (s\<lparr>applications := map_set (applications s) (numeric_id ident) b'\<rparr>, Some b')
           \<and> get_prop b' ''status'' = JStr (application_status_name st)))
 \<and> (getApplication s ident = None \<longrightarrow> updateApplicationStatus s ident st = (s, None))
 \<and> (invalid_status (get_prop (req_body req) ''status'') \<and> authenticated req \<longrightarrow>
      put_application_status_route s req = (s, json_message 400 ''Invalid status''))
 \<and> (\<not> authenticated req \<longrightarrow>
      put_application_status_route s req = (s, json_message 401 ''Unauthorized''))
 \<and> (applications_ok s \<longrightarrow>
      applications_ok (fst (createApplication s now uid a))
      \<and> applications_ok (fst (updateApplicationStatus s ident st))
      \<and> applications_ok (fst (put_application_status_route s req)))"
proof -
  have create: "createApplication s now uid a = (s', app) \<longrightarrow>
      get_prop app ''status'' = JStr ''pending''
      \<and> getApplication s' (JNum (currentApplicationId s)) = Some app"
  proof
    assume c: "createApplication s now uid a = (s', app)"
    from createApplication_stored [OF c]
    show "get_prop app ''status'' = JStr ''pending''
      \<and> getApplication s' (JNum (currentApplicationId s)) = Some app"
      by (simp add: getApplication_def lookup_id_def update_conv')
  qed
  have hit: "getApplication s ident = Some b \<longrightarrow>
      (\<exists>b'. updateApplicationStatus s ident st
               = (s\<lparr>applications := map_set (applications s) (numeric_id ident) b'\<rparr>, Some b')
           \<and> get_prop b' ''status'' = JStr (application_status_name st))"
    using updateApplicationStatus_hit [of s ident b st] by blast
  have miss: "getApplication s ident = None \<longrightarrow> updateApplicationStatus s ident st = (s, None)"
    by (simp add: updateApplicationStatus_miss)
  have bad: "invalid_status (get_prop (req_body req) ''status'') \<and> authenticated req \<longrightarrow>
      put_application_status_route s req = (s, json_message 400 ''Invalid status'')"
    by (simp add: put_application_status_route_def guarded_def isAuthenticated_def
          put_status_invalid)
  have anon: "\<not> authenticated req \<longrightarrow>
      put_application_status_route s req = (s, json_message 401 ''Unauthorized'')"
    by (simp add: put_application_status_route_def guarded_def isAuthenticated_def)
  have inv: "applications_ok s \<longrightarrow>
      applications_ok (fst (createApplication s now uid a))
      \<and> applications_ok (fst (updateApplicationStatus s ident st))
      \<and> applications_ok (fst (put_application_status_route s req))"
  proof
    assume ok: "applications_ok s"
    have 1: "applications_ok (fst (createApplication s now uid a))"
      using createApplication_ok [of s now uid a "fst (createApplication s now uid a)"
          "snd (createApplication s now uid a)"] ok
      by simp
    have 2: "applications_ok (fst (updateApplicationStatus s ident st))"
      by (rule updateApplicationStatus_ok [OF ok])
    have 3: "applications_ok (fst (put_application_status_route s req))"
      using ok put_status_ok [OF ok, of req]
      by (simp add: put_application_status_route_def guarded_def isAuthenticated_def)
    from 1 2 3 show "applications_ok (fst (createApplication s now uid a))
      \<and> applications_ok (fst (updateApplicationStatus s ident st))
      \<and> applications_ok (fst (put_application_status_route s req))" by blast
  qed
  from create hit miss bad anon inv show ?thesis by (intro conjI)
qed

text \<open>
  Alice applies to Bob's job with a status of her own in the input; the application is
  stored as pending, approved by id, not found under another id, and her request to archive
  it is refused.
\<close>

theorem C4_application_status_witness:
  "createApplication store_listings sample_date (JNum 2)
       [(''jobId'', JNum 1), (''coverLetter'', JStr ''hello'')]
     = (store_applied, alice_application)
   \<and> get_prop alice_application ''status'' = JStr ''pending''
   \<and> getApplication store_applied (JStr ''1'') = Some alice_application
   \<and> result_prop ''status'' (snd (updateApplicationStatus store_applied (JStr ''1'') Approved))
       = Some (JStr ''approved'')
   \<and> getApplication store_applied (JNum 7) = None
   \<and> updateApplicationStatus store_applied (JNum 7) Rejected = (store_applied, None)
   \<and> invalid_status (get_prop (req_body alice_request) ''status'')
   \<and> authenticated alice_request
   \<and> put_application_status_route store_applied alice_request
       = (store_applied, json_message 400 ''Invalid status'')
   \<and> \<not> authenticated anonymous_request
   \<and> put_application_status_route store_applied anonymous_request
       = (store_applied, json_message 401 ''Unauthorized'')
   \<and> applications_ok store_applied
   \<and> applications_ok (fst (put_application_status_route store_applied bob_request))"
proof -
  have c: "createApplication store_listings sample_date (JNum 2)
       [(''jobId'', JNum 1), (''coverLetter'', JStr ''hello'')]
     = (store_applied, alice_application)"
    by (simp add: store_applied_def alice_application_def)
  have g: "getApplication store_applied (JStr ''1'') = Some alice_application"
    by code_simp
  have m: "getApplication store_applied (JNum 7) = None"
    by code_simp
  have i: "invalid_status (get_prop (req_body alice_request) ''status'')"
    by code_simp
  have au: "authenticated alice_request" "\<not> authenticated anonymous_request"
    by (simp_all add: alice_request_def anonymous_request_def)
  have ok: "applications_ok store_applied"
    by code_simp
  have "\<exists>b'. updateApplicationStatus store_applied (JStr ''1'') Approved
               = (store_applied\<lparr>applications :=
                    map_set (applications store_applied) (numeric_id (JStr ''1'')) b'\<rparr>, Some b')
           \<and> get_prop b' ''status'' = JStr (application_status_name Approved)"
    using C4_application_status [where s = store_applied and ident = "JStr ''1''"
        and b = alice_application and st = Approved and req = alice_request
        and now = sample_date and uid = "JNum 2" and a = "[]" and s' = store_applied
        and app = alice_application] g
    by simp
  then have upd: "result_prop ''status''
                    (snd (updateApplicationStatus store_applied (JStr ''1'') Approved))
                  = Some (JStr ''approved'')"
    by (auto simp: result_prop_def)
  show ?thesis
    using C4_application_status [where s = store_listings and now = sample_date
        and uid = "JNum 2" and a = "[(''jobId'', JNum 1), (''coverLetter'', JStr ''hello'')]"
        and s' = store_applied and app = alice_application and ident = "JNum 7"
        and b = alice_application and st = Rejected and req = alice_request]
      C4_application_status [where s = store_applied and now = sample_date
        and uid = "JNum 2" and a = "[]"
        and s' = store_applied and app = alice_application and ident = "JNum 7"
        and b = alice_application and st = Rejected and req = alice_request]
      C4_application_status [where s = store_applied and now = sample_date
        and uid = "JNum 2" and a = "[]"
        and s' = store_applied and app = alice_application and ident = "JNum 7"
        and b = alice_application and st = Rejected and req = anonymous_request]
      C4_application_status [where s = store_applied and now = sample_date
        and uid = "JNum 2" and a = "[]"
        and s' = store_applied and app = alice_application and ident = "JNum 7"
        and b = alice_application and st = Rejected and req = bob_request]
      c g m i au ok upd
    by simp
qed

section \<open>The status of a user\<close>

lemma createUser_stored:
  "createUser s now ins = (s', u) \<Longrightarrow>
     get_prop u ''status'' = JStr ''active'' \<and> get_prop u ''blockedReason'' = JNull
     \<and> get_prop u ''id'' = JNum (currentUserId s)
     \<and> users s' = AList.update (currentUserId s) u (users s)"
  by (auto simp: createUser_def Let_def spread_def get_prop_update)

lemma createUser_users_ok:
  "createUser s now ins = (s', u) \<Longrightarrow> users_ok s \<Longrightarrow> users_ok s'"
  using createUser_stored [of s now ins s' u]
  by (simp add: users_ok_def list_all_update user_status_ok_def)

lemma updateUserStatus_miss:
  "getUser s ident = None \<Longrightarrow> updateUserStatus s ident st r = (s, None)"
  by (simp add: getUser_def lookup_id_numeric updateUserStatus_def Let_def)

lemma updateUserStatus_hit:
  assumes "getUser s ident = Some u"
  shows "\<exists>u'. updateUserStatus s ident st r
                = (s\<lparr>users := map_set (users s) (numeric_id ident) u'\<rparr>, Some u')
              \<and> status_update u st r u'"
proof -
  from assms have g: "map_get (users s) (numeric_id ident) = Some u"
    by (simp add: getUser_def lookup_id_numeric)
  then have n: "numeric_id ident \<noteq> JUndefined" by auto
  show ?thesis
    using g n
    by (cases st)
       (auto simp: updateUserStatus_def Let_def spread_def get_prop_update status_update_def)
qed

lemma updateUserStatus_users_ok:
  assumes "users_ok s"
  shows "users_ok (fst (updateUserStatus s ident st r))"
proof (cases "getUser s ident")
  case None
  with assms show ?thesis by (simp add: updateUserStatus_miss)
next
  case (Some u)
  from updateUserStatus_hit [OF Some, of st r] obtain u' where
    u': "updateUserStatus s ident st r
           = (s\<lparr>users := map_set (users s) (numeric_id ident) u'\<rparr>, Some u')"
      "status_update u st r u'" by blast
  have "user_status_ok (k, u')" for k
    using u'(2) by (cases st) (simp_all add: user_status_ok_def status_update_def)
  with assms u'(1) show ?thesis
    by (simp add: users_ok_def list_all_map_set)
qed

text \<open>
  The claim C5 as it is written fails in two places. Blocking does not always record the
  given reason: Bob is blocked for \<^verbatim>\<open>"spam"\<close>, and blocking him again with the reason
  \<open>null\<close> leaves \<^verbatim>\<open>"spam"\<close> in his record; blocking the active Bob with the empty string
  as reason leaves his \<^verbatim>\<open>blockedReason\<close> \<open>null\<close>. And the store can hold a user whose
  status is outside \<open>{active, blocked}\<close>: \<^verbatim>\<open>updateUser\<close> writes whatever status its data
  carry.
\<close>

theorem C5_user_status_counterexample:
  "result_prop ''blockedReason'' (getUser store_blocked (JNum 1)) = Some (JStr ''spam'')
   \<and> result_prop ''blockedReason'' (snd (updateUserStatus store_blocked (JNum 1) Blocked None))
       = Some (JStr ''spam'')
   \<and> reason_value None = JNull
   \<and> result_prop ''blockedReason'' (getUser store_users (JNum 1)) = Some JNull
   \<and> result_prop ''blockedReason'' (snd (updateUserStatus store_users (JNum 1) Blocked (Some [])))
       = Some JNull
   \<and> reason_value (Some []) = JStr []
   \<and> users_ok store_users
   \<and> result_prop ''status'' (getUser store_suspended (JNum 1)) = Some (JStr ''suspended'')
   \<and> \<not> users_ok store_suspended"
  by code_simp

text \<open>
  C5, amended. \<^verbatim>\<open>createUser\<close> and \<^verbatim>\<open>updateUserStatus\<close> keep the status of every user
  record in \<open>{active, blocked}\<close>: \<^verbatim>\<open>createUser\<close> always stores the new user with status
  \<^verbatim>\<open>"active"\<close> and \<^verbatim>\<open>blockedReason\<close> \<open>null\<close>, whatever the insert data contain;
  \<^verbatim>\<open>updateUserStatus\<close> sets \<^verbatim>\<open>"blocked"\<close>, recording the given reason when it is a non-empty
  string and otherwise leaving \<^verbatim>\<open>blockedReason\<close> as it was, or sets \<^verbatim>\<open>"active"\<close> and resets
  \<^verbatim>\<open>blockedReason\<close> to \<open>null\<close>; it returns \<open>undefined\<close> and changes nothing when the id does
  not resolve to a stored user.
\<close>

theorem C5_user_status:
  "(createUser s now ins = (s', u) \<longrightarrow>
      get_prop u ''status'' = JStr ''active'' \<and> get_prop u ''blockedReason'' = JNull
      \<and> getUser s' (JNum (currentUserId s)) = Some u
      \<and> (users_ok s \<longrightarrow> users_ok s'))
 \<and> (getUser s ident = Some v \<longrightarrow>
      (\<exists>v'. updateUserStatus s ident st r
               = (s\<lparr>users := map_set (users s) (numeric_id ident) v'\<rparr>, Some v')
           \<and> getUser (fst (updateUserStatus s ident st r)) ident = Some v'
           \<and> get_prop v' ''status'' = JStr (user_status_name st)
           \<and> get_prop v' ''blockedReason'' =
               (if st = Blocked \<and> truthy (reason_value r) then reason_value r
                else if st = Active then JNull
                else get_prop v ''blockedReason'')))
 \<and> (getUser s ident = None \<longrightarrow> updateUserStatus s ident st r = (s, None))
 \<and> (users_ok s \<longrightarrow> users_ok (fst (updateUserStatus s ident st r)))"
proof -
  have create: "createUser s now ins = (s', u) \<longrightarrow>
      get_prop u ''status'' = JStr ''active'' \<and> get_prop u ''blockedReason'' = JNull
      \<and> getUser s' (JNum (currentUserId s)) = Some u
      \<and> (users_ok s \<longrightarrow> users_ok s')"
  proof
    assume c: "createUser s now ins = (s', u)"
    from createUser_stored [OF c] createUser_users_ok [OF c]
    show "get_prop u ''status'' = JStr ''active'' \<and> get_prop u ''blockedReason'' = JNull
      \<and> getUser s' (JNum (currentUserId s)) = Some u
      \<and> (users_ok s \<longrightarrow> users_ok s')"
      by (simp add: getUser_def lookup_id_def update_conv')
  qed
  have hit: "getUser s ident = Some v \<longrightarrow>
      (\<exists>v'. updateUserStatus s ident st r
               = (s\<lparr>users := map_set (users s) (numeric_id ident) v'\<rparr>, Some v')
           \<and> getUser (fst (updateUserStatus s ident st r)) ident = Some v'
           \<and> get_prop v' ''status'' = JStr (user_status_name st)
           \<and> get_prop v' ''blockedReason'' =
               (if st = Blocked \<and> truthy (reason_value r) then reason_value r
                else if st = Active then JNull
                else get_prop v ''blockedReason''))"
  proof
    assume g: "getUser s ident = Some v"
    from updateUserStatus_hit [OF g, of st r] obtain v' where
      v': "updateUserStatus s ident st r
             = (s\<lparr>users := map_set (users s) (numeric_id ident) v'\<rparr>, Some v')"
        "status_update v st r v'" by blast
    from g have "map_get (users s) (numeric_id ident) = Some v"
      by (simp add: getUser_def lookup_id_numeric)
    then have "getUser (fst (updateUserStatus s ident st r)) ident = Some v'"
      by (simp add: v'(1) getUser_def lookup_id_numeric map_get_map_set)
    with v' show "\<exists>v'. updateUserStatus s ident st r
               = (s\<lparr>users := map_set (users s) (numeric_id ident) v'\<rparr>, Some v')
           \<and> getUser (fst (updateUserStatus s ident st r)) ident = Some v'
           \<and> get_prop v' ''status'' = JStr (user_status_name st)
           \<and> get_prop v' ''blockedReason'' =
               (if st = Blocked \<and> truthy (reason_value r) then reason_value r
                else if st = Active then JNull
                else get_prop v ''blockedReason'')"
      unfolding status_update_def by blast
  qed
  have miss: "getUser s ident = None \<longrightarrow> updateUserStatus s ident st r = (s, None)"
    by (simp add: updateUserStatus_miss)
  have inv: "users_ok s \<longrightarrow> users_ok (fst (updateUserStatus s ident st r))"
    by (simp add: updateUserStatus_users_ok)
  from create hit miss inv show ?thesis by (intro conjI)
qed

text \<open>
  Bob is created active, blocked for spam through the id \<^verbatim>\<open>"1"\<close>, and an id that does not
  parse changes nothing.
\<close>

theorem C5_user_status_witness:
  "createUser new_MemStorage sample_date bob_data = (store_bob, bob)
   \<and> get_prop bob ''status'' = JStr ''active'' \<and> get_prop bob ''blockedReason'' = JNull
   \<and> users_ok new_MemStorage \<and> users_ok store_bob
   \<and> getUser store_users (JStr ''1'') = Some bob
   \<and> result_prop ''status'' (snd (updateUserStatus store_users (JStr ''1'') Blocked (Some ''spam'')))
       = Some (JStr ''blocked'')
   \<and> result_prop ''blockedReason''
        (snd (updateUserStatus store_users (JStr ''1'') Blocked (Some ''spam'')))
       = Some (JStr ''spam'')
   \<and> getUser store_users (JStr ''abc'') = None
   \<and> updateUserStatus store_users (JStr ''abc'') Blocked (Some ''spam'') = (store_users, None)
   \<and> users_ok store_users
   \<and> users_ok (fst (updateUserStatus store_users (JStr ''1'') Blocked (Some ''spam'')))"
proof -
  have c: "createUser new_MemStorage sample_date bob_data = (store_bob, bob)"
    by (simp add: store_bob_def bob_def)
  have ok0: "users_ok new_MemStorage" by code_simp
  have ok: "users_ok store_users" by code_simp
  have g: "getUser store_users (JStr ''1'') = Some bob" by code_simp
  have m: "getUser store_users (JStr ''abc'') = None" by code_simp
  have t: "truthy (reason_value (Some ''spam''))" by code_simp
  have "\<exists>v'. updateUserStatus store_users (JStr ''1'') Blocked (Some ''spam'')
               = (store_users\<lparr>users := map_set (users store_users) (numeric_id (JStr ''1'')) v'\<rparr>,
                  Some v')
           \<and> getUser (fst (updateUserStatus store_users (JStr ''1'') Blocked (Some ''spam'')))
                (JStr ''1'') = Some v'
           \<and> get_prop v' ''status'' = JStr (user_status_name Blocked)
           \<and> get_prop v' ''blockedReason'' =
               (if Blocked = Blocked \<and> truthy (reason_value (Some ''spam''))
                then reason_value (Some ''spam'')
                else if Blocked = Active then JNull
                else get_prop bob ''blockedReason'')"
    using C5_user_status [where s = store_users and ident = "JStr ''1''" and v = bob
        and st = Blocked and r = "Some ''spam''" and now = sample_date and ins = bob_data
        and s' = store_bob and u = bob] g
    by simp
  then have upd: "result_prop ''status''
                    (snd (updateUserStatus store_users (JStr ''1'') Blocked (Some ''spam'')))
                  = Some (JStr ''blocked'')"
      "result_prop ''blockedReason''
         (snd (updateUserStatus store_users (JStr ''1'') Blocked (Some ''spam'')))
       = Some (JStr ''spam'')"
    using t by (auto simp: result_prop_def reason_value_def)
  show ?thesis
    using C5_user_status [where s = new_MemStorage and now = sample_date and ins = bob_data
        and s' = store_bob and u = bob and ident = "JStr ''abc''" and v = bob
        and st = Blocked and r = "Some ''spam''"]
      C5_user_status [where s = store_users and now = sample_date and ins = bob_data
        and s' = store_bob and u = bob and ident = "JStr ''abc''" and v = bob
        and st = Blocked and r = "Some ''spam''"]
      C5_user_status [where s = store_users and now = sample_date and ins = bob_data
        and s' = store_bob and u = bob and ident = "JStr ''1''" and v = bob
        and st = Blocked and r = "Some ''spam''"]
      c ok0 ok g m upd
    by simp
qed

section \<open>Password verification at login\<close>

lemma local_strategy_calls_verify:
  "local_strategy bcrypt_compare s b =
     (if \<not> truthy (get_prop b ''username'') \<or> \<not> truthy (get_prop b ''password'')
      then AuthFail ''Missing credentials''
      else case get_prop b ''username'' of
             JStr u \<Rightarrow> verify bcrypt_compare s u (get_prop b ''password'')
           | other \<Rightarrow> AuthError (Error ''username.toLowerCase is not a function''))"
  by (simp add: local_strategy_def Let_def)



section \<open>Deleting a user\<close>

lemma delete_as_filter: "AList.delete k m = filter (\<lambda>e. fst e \<noteq> k) m"
  by (induction m) auto

lemma fold_map_delete:
  "foldl map_delete m (map JNum ks) = filter (\<lambda>e. fst e \<notin> set ks) m"
proof (induction ks arbitrary: m)
  case Nil
  show ?case by simp
next
  case (Cons k ks)
  have "foldl map_delete m (map JNum (k # ks))
        = filter (\<lambda>e. fst e \<notin> set ks) (filter (\<lambda>e. fst e \<noteq> k) m)"
    by (simp add: Cons.IH delete_as_filter)
  also have "\<dots> = filter (\<lambda>e. fst e \<notin> set (k # ks)) m"
    by (simp add: conj_commute)
  finally show ?case .
qed

lemma owned_ids_keyed:
  "list_all own_key m \<Longrightarrow>
   owned_ids m numericId = map JNum (map fst (filter (owned_by numericId) m))"
  by (induction m) (auto simp: owned_ids_def map_values_def own_key_def owned_by_def)

lemma filter_owned_keys:
  assumes "distinct (map fst m)"
  shows "filter (\<lambda>e. fst e \<notin> set (map fst (filter P m))) m = filter (\<lambda>e. \<not> P e) m"
proof (rule filter_cong [OF refl])
  fix e assume e: "e \<in> set m"
  have "fst e \<in> set (map fst (filter P m)) \<longleftrightarrow> P e"
  proof
    assume "fst e \<in> set (map fst (filter P m))"
    then obtain e' where e': "e' \<in> set m" "P e'" "fst e' = fst e" by auto
    from e'(1) have "(fst e', snd e') \<in> set m" by simp
    then have "(fst e, snd e') \<in> set m" by (simp only: e'(3))
    moreover from e have "(fst e, snd e) \<in> set m" by simp
    ultimately have "snd e' = snd e"
      by (rule eq_key_imp_eq_value [OF assms])
    with e' have "e' = e" by (simp add: prod_eq_iff)
    with e' show "P e" by simp
  next
    assume "P e" with e show "fst e \<in> set (map fst (filter P m))" by auto
  qed
  then show "(fst e \<notin> set (map fst (filter P m))) = (\<not> P e)" by simp
qed

lemma delete_owned:
  assumes "keyed_by_id m"
  shows "foldl map_delete m (owned_ids m numericId) = filter (not_owned_by numericId) m"
proof -
  from assms have d: "distinct (map fst m)" and k: "list_all own_key m"
    by (simp_all add: keyed_by_id_def)
  have "foldl map_delete m (owned_ids m numericId)
        = filter (\<lambda>e. fst e \<notin> set (map fst (filter (owned_by numericId) m))) m"
    by (simp only: owned_ids_keyed [OF k] fold_map_delete)
  also have "\<dots> = filter (\<lambda>e. \<not> owned_by numericId e) m"
    by (rule filter_owned_keys [OF d])
  finally show ?thesis by (simp add: not_owned_by_def [abs_def])
qed

text \<open>
  In a store where every service, job and application is held under its own id, as the
  create methods store them, \<^verbatim>\<open>deleteUser\<close> with a numeric or numeric-string id removes the
  user under that key together with every service, job and application whose \<^verbatim>\<open>userId\<close> is
  that number, and leaves the orders, the reviews, the counters and every other record as
  they were; with an id that does not parse it returns the store unchanged.
\<close>

lemma deleteUser_keyed_by_id:
  "keyed_by_id (services s) \<and> keyed_by_id (jobs s) \<and> keyed_by_id (applications s)
   \<longrightarrow> (numeric_id ident \<noteq> JUndefined \<longrightarrow>
          deleteUser s ident =
            s\<lparr>users := map_delete (users s) (numeric_id ident),
              services := filter (not_owned_by (numeric_id ident)) (services s),
              jobs := filter (not_owned_by (numeric_id ident)) (jobs s),
              applications := filter (not_owned_by (numeric_id ident)) (applications s)\<rparr>)
     \<and> (numeric_id ident = JUndefined \<longrightarrow> deleteUser s ident = s)
     \<and> getUser (deleteUser s ident) ident = None"
proof
  assume wf: "keyed_by_id (services s) \<and> keyed_by_id (jobs s) \<and> keyed_by_id (applications s)"
  have numeric: "numeric_id ident \<noteq> JUndefined \<longrightarrow>
          deleteUser s ident =
            s\<lparr>users := map_delete (users s) (numeric_id ident),
              services := filter (not_owned_by (numeric_id ident)) (services s),
              jobs := filter (not_owned_by (numeric_id ident)) (jobs s),
              applications := filter (not_owned_by (numeric_id ident)) (applications s)\<rparr>"
    using wf
    by (simp add: deleteUser_def Let_def delete_owned [of "services s"]
          delete_owned [of "jobs s"] delete_owned [of "applications s"])
  have other: "numeric_id ident = JUndefined \<longrightarrow> deleteUser s ident = s"
    by (simp add: deleteUser_def)
  have gone: "getUser (deleteUser s ident) ident = None"
  proof (cases "numeric_id ident")
    case (JNum k)
    then show ?thesis
      by (simp add: getUser_def lookup_id_numeric deleteUser_def Let_def delete_conv')
  qed (simp_all add: getUser_def lookup_id_numeric deleteUser_def Let_def)
  from numeric other gone
  show "(numeric_id ident \<noteq> JUndefined \<longrightarrow>
          deleteUser s ident =
            s\<lparr>users := map_delete (users s) (numeric_id ident),
              services := filter (not_owned_by (numeric_id ident)) (services s),
              jobs := filter (not_owned_by (numeric_id ident)) (jobs s),
              applications := filter (not_owned_by (numeric_id ident)) (applications s)\<rparr>)
     \<and> (numeric_id ident = JUndefined \<longrightarrow> deleteUser s ident = s)
     \<and> getUser (deleteUser s ident) ident = None"
    by (intro conjI)
qed

text \<open>
  C10. The claim: for every numeric or numeric-string id, \<^verbatim>\<open>MemStorage.deleteUser\<close> removes
  the user stored under that id together with every service, job and application whose
  \<^verbatim>\<open>userId\<close> equals it, and leaves every record of other users unchanged. The code deletes
  the user's records by their \<^verbatim>\<open>id\<close> property, not by the key they are held under, and
  \<^verbatim>\<open>updateService\<close> can store a record whose \<^verbatim>\<open>id\<close> differs from its key. After
  \<^verbatim>\<open>updateService(1, {id: 2})\<close> service 1 belongs to user 1 and service 2 to user 2;
  \<^verbatim>\<open>deleteUser(1)\<close> then leaves the service of user 1 in the map and removes the service
  of user 2.
\<close>

theorem C10_deleteUser_deletes_by_id_property:
  "result_prop ''userId'' (getService store_relabelled (JNum 1)) = Some (JNum 1)
   \<and> result_prop ''userId'' (getService store_relabelled (JNum 2)) = Some (JNum 2)
   \<and> result_prop ''userId'' (getService (deleteUser store_relabelled (JNum 1)) (JNum 1))
       = Some (JNum 1)
   \<and> getService (deleteUser store_relabelled (JNum 1)) (JNum 2) = None"
  by code_simp

end
